theory Spec2Isabelle
  imports
    Complex_Main
    "HOL-Library.Sublist"
    "HOL-Library.Char_ord"
    "HOL-Library.List_Lexorder"
    "HOL-Library.AList"
    "HOL-Library.Multiset"
begin

section \<open>JavaScript values, objects and library functions\<close>

text \<open>
  The values the TypeScript sources pass around as \<^verbatim>\<open>any\<close>. An object is the list of
  its own properties in insertion order, with distinct keys; a string is a list of
  characters, compared the way \<^verbatim>\<open>Array.prototype.sort()\<close> compares strings (code units,
  a proper prefix first).
\<close>

datatype js_value =
    JSNull
  | JSUndefined
  | JSBool bool
  | JSNumber int
  | JSString string
  | JSArray "js_value list"
  | JSObject "(string \<times> js_value) list"

text \<open>
  Functions of the platform that the sources call and that are not part of the
  repository: \<^verbatim>\<open>JSON.stringify\<close> (which yields \<^verbatim>\<open>undefined\<close>, here \<open>None\<close>, for a value
  with no JSON text), \<^verbatim>\<open>JSON.parse\<close> (\<open>None\<close> where it throws), \<^verbatim>\<open>String(v)\<close>, the
  hexadecimal SHA-256 digest of \<^verbatim>\<open>crypto.createHash\<close>, and zlib's \<^verbatim>\<open>gzip\<close> and
  \<^verbatim>\<open>gunzip\<close> (\<open>None\<close> where they fail). They are parameters of the model. Strings are
  taken as ASCII, so that \<^verbatim>\<open>s.length\<close> and \<^verbatim>\<open>Buffer.byteLength(s, 'utf8')\<close> are both the
  length of the list.
\<close>

record js_runtime =
  JSON_stringify :: "js_value \<Rightarrow> string option"
  JSON_parse :: "string \<Rightarrow> js_value option"
  String_of :: "js_value \<Rightarrow> string"
  sha256_hex :: "string \<Rightarrow> string"
  gzip :: "string \<Rightarrow> string option"
  gunzip :: "string \<Rightarrow> string option"

datatype js_error = Error string | TypeError string

definition isDigit :: "char \<Rightarrow> bool" where
  "isDigit c \<longleftrightarrow> CHR ''0'' \<le> c \<and> c \<le> CHR ''9''"

definition decimal_value :: "string \<Rightarrow> int" where
  "decimal_value s = foldl (\<lambda>n c. 10 * n + (of_char c - of_char CHR ''0'')) 0 s"

definition isArrayIndex :: "string \<Rightarrow> bool" where
  "isArrayIndex s \<longleftrightarrow>
     s \<noteq> [] \<and> list_all isDigit s \<and> (s = ''0'' \<or> take 1 s \<noteq> ''0'')
     \<and> decimal_value s < 2 ^ 32 - 1"

definition ownKeysOrder :: "string list \<Rightarrow> string list" where
  \<comment> \<open>Property enumeration order: array indices ascending, then the other keys as inserted.\<close>
  "ownKeysOrder ks =
     sort_key decimal_value (filter isArrayIndex ks) @ filter (\<lambda>k. \<not> isArrayIndex k) ks"

definition Object_keys :: "(string \<times> 'v) list \<Rightarrow> string list" where
  "Object_keys obj = ownKeysOrder (map fst obj)"

definition obj_get :: "(string \<times> js_value) list \<Rightarrow> string \<Rightarrow> js_value" where
  \<comment> \<open>\<^verbatim>\<open>obj[key]\<close>: a missing property reads as \<^verbatim>\<open>undefined\<close>.\<close>
  "obj_get obj k = (case map_of obj k of Some v \<Rightarrow> v | None \<Rightarrow> JSUndefined)"

definition obj_set :: "(string \<times> 'v) list \<Rightarrow> string \<Rightarrow> 'v \<Rightarrow> (string \<times> 'v) list" where
  \<comment> \<open>\<^verbatim>\<open>obj[key] = v\<close>: an existing property keeps its place, a new one goes last.\<close>
  "obj_set obj k v = AList.update k v obj"

definition Object_entries :: "(string \<times> 'v) list \<Rightarrow> (string \<times> 'v) list" where
  "Object_entries obj =
     concat (map (\<lambda>k. case map_of obj k of Some v \<Rightarrow> [(k, v)] | None \<Rightarrow> [])
       (Object_keys obj))"

fun join :: "string \<Rightarrow> string list \<Rightarrow> string" where
  "join sep [] = []"
| "join sep [x] = x"
| "join sep (x # y # ys) = x @ sep @ join sep (y # ys)"

fun str_includes :: "string \<Rightarrow> string \<Rightarrow> bool" where
  \<comment> \<open>\<^verbatim>\<open>s.includes(sub)\<close>\<close>
  "str_includes [] sub = (sub = [])"
| "str_includes (c # cs) sub = (prefix sub (c # cs) \<or> str_includes cs sub)"

definition digit_char :: "nat \<Rightarrow> char" where
  "digit_char n = char_of (of_char CHR ''0'' + n)"

function string_of_nat :: "nat \<Rightarrow> string" where
  "string_of_nat n =
     (if n < 10 then [digit_char n] else string_of_nat (n div 10) @ [digit_char (n mod 10)])"
  by pat_completeness auto
termination
  by (relation "measure id") auto

definition string_of_int :: "int \<Rightarrow> string" where
  \<comment> \<open>How a template literal prints a whole number.\<close>
  "string_of_int i = (if i < 0 then ''-'' @ string_of_nat (nat (- i)) else string_of_nat (nat i))"

subsection \<open>The text of \<^verbatim>\<open>JSON.stringify\<close>\<close>

text \<open>
  What \<^verbatim>\<open>JSON.stringify(v)\<close> gives on these values (ECMA-262, SerializeJSONProperty): the
  properties of an object in enumeration order, a property whose value has no text left
  out, an array element with no text written \<^verbatim>\<open>null\<close>.
\<close>

definition hex_char :: "nat \<Rightarrow> char" where
  "hex_char n = (if n < 10 then digit_char n else char_of (of_char CHR ''a'' + (n - 10)))"

definition json_escape :: "char \<Rightarrow> string" where
  "json_escape c =
     (if c = CHR 0x22 then [CHR 0x5C, CHR 0x22]
      else if c = CHR 0x5C then [CHR 0x5C, CHR 0x5C]
      else if c = CHR 0x08 then [CHR 0x5C, CHR ''b'']
      else if c = CHR 0x09 then [CHR 0x5C, CHR ''t'']
      else if c = CHR 0x0A then [CHR 0x5C, CHR ''n'']
      else if c = CHR 0x0C then [CHR 0x5C, CHR ''f'']
      else if c = CHR 0x0D then [CHR 0x5C, CHR ''r'']
      else if (of_char c :: nat) < 32
      then [CHR 0x5C, CHR ''u'', CHR ''0'', CHR ''0'', hex_char (of_char c div 16),
            hex_char (of_char c mod 16)]
      else [c])"

definition json_quote :: "string \<Rightarrow> string" where
  "json_quote s = [CHR 0x22] @ concat (map json_escape s) @ [CHR 0x22]"

fun json_text :: "js_value \<Rightarrow> string option" where
  "json_text JSNull = Some ''null''"
| "json_text JSUndefined = None"
| "json_text (JSBool b) = Some (if b then ''true'' else ''false'')"
| "json_text (JSNumber n) = Some (string_of_int n)"
| "json_text (JSString s) = Some (json_quote s)"
| "json_text (JSArray xs) =
     Some (''['' @ join '','' (map (\<lambda>x. case json_text x of None \<Rightarrow> ''null'' | Some t \<Rightarrow> t) xs)
           @ '']'')"
| "json_text (JSObject kvs) =
     Some (''{''
           @ join '',''
               (concat (map (\<lambda>(key, t). case t of None \<Rightarrow> [] | Some s \<Rightarrow> [json_quote key @ '':'' @ s])
                  (Object_entries (map (\<lambda>(key, v). (key, json_text v)) kvs))))
           @ ''}'')"

fun same_content :: "js_value \<Rightarrow> js_value" where
  \<comment> \<open>A value with the properties of every object in it put in the order of their keys:
      two values hold the same data when this makes them equal.\<close>
  "same_content (JSArray xs) = JSArray (map same_content xs)"
| "same_content (JSObject kvs) = JSObject (sort_key fst (map (\<lambda>(key, v). (key, same_content v)) kvs))"
| "same_content v = v"

section \<open>Cache keys (\<^verbatim>\<open>utils/key_generation.ts\<close>)\<close>

definition SEPARATOR :: string where
  "SEPARATOR = '':''"

definition VERSION :: string where
  "VERSION = ''v1''"

definition normalizeParam :: "js_runtime \<Rightarrow> js_value \<Rightarrow> string" where
  \<comment> \<open>The body of the \<^verbatim>\<open>forEach\<close> of \<^verbatim>\<open>sortAndNormalizeParams\<close>.\<close>
  "normalizeParam rt v =
     (case v of
        JSNull \<Rightarrow> ''''
      | JSUndefined \<Rightarrow> ''''
      | JSArray xs \<Rightarrow> (case JSON_stringify rt v of Some s \<Rightarrow> s | None \<Rightarrow> ''undefined'')
      | JSObject kvs \<Rightarrow> (case JSON_stringify rt v of Some s \<Rightarrow> s | None \<Rightarrow> ''undefined'')
      | _ \<Rightarrow> String_of rt v)"

definition sortAndNormalizeParams ::
  "js_runtime \<Rightarrow> (string \<times> js_value) list \<Rightarrow> (string \<times> string) list" where
  "sortAndNormalizeParams rt params =
     foldl (\<lambda>normalized key. obj_set normalized key (normalizeParam rt (obj_get params key)))
       [] (sort (Object_keys params))"

definition serializeParams :: "(string \<times> string) list \<Rightarrow> string" where
  "serializeParams params =
     (if length (Object_keys params) = 0 then ''''
      else join ''&'' (map (\<lambda>(key, v). key @ ''='' @ v) (Object_entries params)))"

definition hashString :: "js_runtime \<Rightarrow> string \<Rightarrow> string" where
  "hashString rt input = take 16 (sha256_hex rt input)"

definition generateKey :: "js_runtime \<Rightarrow> string \<Rightarrow> (string \<times> js_value) list \<Rightarrow> string" where
  "generateKey rt type params =
     (let sortedParams = sortAndNormalizeParams rt params;
          paramString = serializeParams sortedParams;
          baseKey = join SEPARATOR [VERSION, type, paramString]
      in if length baseKey > 200
         then join SEPARATOR [VERSION, type, hashString rt baseKey]
         else baseKey)"

subsection \<open>Key determinism\<close>

lemma mset_ownKeysOrder: "mset (ownKeysOrder ks) = mset ks"
  by (simp add: ownKeysOrder_def)

lemma sort_Object_keys_cong:
  assumes "distinct (map fst p1)" "distinct (map fst p2)" "set p1 = set p2"
  shows "sort (Object_keys p1) = sort (Object_keys p2)"
proof -
  have "set (map fst p1) = set (map fst p2)"
    using assms(3) by simp
  with assms(1,2) have "mset (map fst p1) = mset (map fst p2)"
    by (simp only: set_eq_iff_mset_eq_distinct)
  then have "mset (Object_keys p1) = mset (Object_keys p2)"
    by (simp add: Object_keys_def mset_ownKeysOrder)
  then show ?thesis
    by (metis properties_for_sort sorted_sort mset_sort)
qed

lemma obj_get_cong:
  assumes "distinct (map fst p1)" "distinct (map fst p2)" "set p1 = set p2"
  shows "obj_get p1 = obj_get p2"
proof -
  have "map_of p1 = map_of p2"
    using assms by (simp add: map_of_inject_set)
  then show ?thesis
    by (simp add: obj_get_def fun_eq_iff)
qed

text \<open>
  C9. Two parameter objects with the same keys and, under each key, the same value
  (a nested object counts as the same value when its own properties come in the same
  order), inserted in different orders, get the same key for every category; the key is a
  function of the category and the parameters.
\<close>

theorem generateKey_insertion_order:
  assumes "distinct (map fst p1)" and "distinct (map fst p2)" and "set p1 = set p2"
  shows "generateKey rt c p1 = generateKey rt c p2"
proof -
  have "sortAndNormalizeParams rt p1 = sortAndNormalizeParams rt p2"
    unfolding sortAndNormalizeParams_def
    by (simp only: sort_Object_keys_cong [OF assms] obj_get_cong [OF assms])
  then show ?thesis
    by (simp only: generateKey_def)
qed

definition demo_gzip :: "string \<Rightarrow> string option" where
  \<comment> \<open>A run-length coder for the examples: a run of one character becomes three bytes.\<close>
  "demo_gzip s =
     (case s of
        [] \<Rightarrow> Some []
      | c # cs \<Rightarrow>
          if cs = replicate (length cs) c \<and> length s < 256
          then Some [CHR 0x01, c, char_of (length s)]
          else Some (CHR 0x00 # s))"

definition demo_gunzip :: "string \<Rightarrow> string option" where
  "demo_gunzip b =
     (case b of
        [] \<Rightarrow> Some []
      | t # rest \<Rightarrow>
          if t = CHR 0x00 then Some rest
          else (case rest of [c, n] \<Rightarrow> Some (replicate (of_char n) c) | _ \<Rightarrow> None))"

definition demo_runtime :: js_runtime where
  "demo_runtime =
     \<lparr> JSON_stringify = (\<lambda>v. case v of JSString s \<Rightarrow> Some s | JSUndefined \<Rightarrow> None | _ \<Rightarrow> Some ''{}''),
       JSON_parse = (\<lambda>s. Some (JSString s)),
       String_of = (\<lambda>v. case v of JSString s \<Rightarrow> s | JSBool b \<Rightarrow> (if b then ''true'' else ''false'')
                           | _ \<Rightarrow> ''0''),
       sha256_hex = (\<lambda>s. ''#'' @ s),
       gzip = demo_gzip,
       gunzip = demo_gunzip \<rparr>"

theorem generateKey_insertion_order_witness:
  "distinct (map fst [(''league'', JSString ''Standard''), (''10'', JSBool True), (''9'', JSNull)])
   \<and> distinct (map fst [(''9'', JSNull), (''league'', JSString ''Standard''), (''10'', JSBool True)])
   \<and> set [(''league'', JSString ''Standard''), (''10'', JSBool True), (''9'', JSNull)]
       = set [(''9'', JSNull), (''league'', JSString ''Standard''), (''10'', JSBool True)]
   \<and> generateKey demo_runtime ''leagues''
         [(''league'', JSString ''Standard''), (''10'', JSBool True), (''9'', JSNull)]
       = generateKey demo_runtime ''leagues''
         [(''9'', JSNull), (''league'', JSString ''Standard''), (''10'', JSBool True)]
   \<and> generateKey demo_runtime ''leagues''
         [(''9'', JSNull), (''league'', JSString ''Standard''), (''10'', JSBool True)]
       = ''v1:leagues:9=&10=true&league=Standard''"
proof -
  have d1: "distinct (map fst [(''league'', JSString ''Standard''), (''10'', JSBool True), (''9'', JSNull)])"
    by simp
  have d2: "distinct (map fst [(''9'', JSNull), (''league'', JSString ''Standard''), (''10'', JSBool True)])"
    by simp
  have s: "set [(''league'', JSString ''Standard''), (''10'', JSBool True), (''9'', JSNull)]
       = set [(''9'', JSNull), (''league'', JSString ''Standard''), (''10'', JSBool True)]"
    by auto
  have v: "generateKey demo_runtime ''leagues''
         [(''9'', JSNull), (''league'', JSString ''Standard''), (''10'', JSBool True)]
       = ''v1:leagues:9=&10=true&league=Standard''"
    by code_simp
  from generateKey_insertion_order [OF d1 d2 s, of demo_runtime "''leagues''"] d1 d2 s v
  show ?thesis by blast
qed

text \<open>
  The order of the keys inside a nested object does reach the key: \<open>sortAndNormalizeParams\<close>
  sorts the keys of the parameter object only, and \<^verbatim>\<open>JSON.stringify\<close> writes a nested object
  in the order of its properties.
\<close>

definition json_runtime :: js_runtime where
  \<comment> \<open>A platform whose \<^verbatim>\<open>JSON.stringify\<close> is the one above.\<close>
  "json_runtime = demo_runtime\<lparr> JSON_stringify := json_text \<rparr>"

definition filter_min_max :: "(string \<times> js_value) list" where
  \<comment> \<open>\<^verbatim>\<open>{ filter: { min: 1, max: 5 } }\<close>\<close>
  "filter_min_max = [(''filter'', JSObject [(''min'', JSNumber 1), (''max'', JSNumber 5)])]"

definition filter_max_min :: "(string \<times> js_value) list" where
  \<comment> \<open>\<^verbatim>\<open>{ filter: { max: 5, min: 1 } }\<close>\<close>
  "filter_max_min = [(''filter'', JSObject [(''max'', JSNumber 5), (''min'', JSNumber 1)])]"

theorem generateKey_nested_order_counterexample:
  "same_content (JSObject filter_min_max) = same_content (JSObject filter_max_min)
   \<and> generateKey json_runtime ''search_results'' filter_min_max
       = ''v1:search_results:filter={'' @ [CHR 0x22] @ ''min'' @ [CHR 0x22] @ '':1,''
           @ [CHR 0x22] @ ''max'' @ [CHR 0x22] @ '':5}''
   \<and> generateKey json_runtime ''search_results'' filter_max_min
       = ''v1:search_results:filter={'' @ [CHR 0x22] @ ''max'' @ [CHR 0x22] @ '':5,''
           @ [CHR 0x22] @ ''min'' @ [CHR 0x22] @ '':1}''
   \<and> generateKey json_runtime ''search_results'' filter_min_max
       \<noteq> generateKey json_runtime ''search_results'' filter_max_min"
  by code_simp

section \<open>Compression (\<^verbatim>\<open>utils/compression.ts\<close>)\<close>

record compress_result =
  cr_data :: string
  cr_compressed :: bool

definition ratio_below_09 :: "nat \<Rightarrow> nat \<Rightarrow> bool" where
  \<comment> \<open>\<^verbatim>\<open>compressed.length / dataSize < 0.9\<close>; a division by zero gives \<^verbatim>\<open>Infinity\<close> or
      \<^verbatim>\<open>NaN\<close>, and neither is below 0.9.\<close>
  "ratio_below_09 compressedLength dataSize \<longleftrightarrow>
     dataSize \<noteq> 0 \<and> 10 * compressedLength < 9 * dataSize"

definition compress :: "js_runtime \<Rightarrow> int \<Rightarrow> js_value \<Rightarrow> js_error + compress_result" where
  "compress rt compressionThreshold v =
     (case JSON_stringify rt v of
        None \<Rightarrow> Inl (TypeError ''The \"string\" argument must be of type string'')
      | Some jsonString \<Rightarrow>
          let dataSize = length jsonString in
          if int dataSize < compressionThreshold
          then Inr \<lparr> cr_data = jsonString, cr_compressed = False \<rparr>
          else (case gzip rt jsonString of
                  None \<Rightarrow> Inr \<lparr> cr_data = jsonString, cr_compressed = False \<rparr>
                | Some compressed \<Rightarrow>
                    if ratio_below_09 (length compressed) dataSize
                    then Inr \<lparr> cr_data = compressed, cr_compressed = True \<rparr>
                    else Inr \<lparr> cr_data = jsonString, cr_compressed = False \<rparr>))"

definition decompress :: "js_runtime \<Rightarrow> string \<Rightarrow> bool \<Rightarrow> js_error + js_value" where
  "decompress rt d isCompressed =
     (if \<not> isCompressed
      then (case JSON_parse rt d of
              Some v \<Rightarrow> Inr v
            | None \<Rightarrow> Inl (Error ''Failed to decompress cache data''))
      else (case gunzip rt d of
              None \<Rightarrow> Inl (Error ''Failed to decompress cache data'')
            | Some decompressed \<Rightarrow>
                (case JSON_parse rt decompressed of
                   Some v \<Rightarrow> Inr v
                 | None \<Rightarrow> Inl (Error ''Failed to decompress cache data''))))"

subsection \<open>Round trip\<close>

text \<open>
  C8. A value is JSON-serializable when it has a JSON text that parses back to it; gunzip
  undoes gzip on that text. Then \<open>decompress\<close>, given the data and the flag that
  \<open>compress\<close> returned, gives the value back, and a text shorter than the threshold
  is returned as it is, with the flag off.
\<close>

theorem compress_decompress_roundtrip:
  assumes "JSON_stringify rt v = Some s"
    and "JSON_parse rt s = Some v"
    and "\<And>c. gzip rt s = Some c \<Longrightarrow> gunzip rt c = Some s"
  shows "\<exists>r. compress rt threshold v = Inr r
           \<and> decompress rt (cr_data r) (cr_compressed r) = Inr v
           \<and> (int (length s) < threshold \<longrightarrow> r = \<lparr> cr_data = s, cr_compressed = False \<rparr>)"
proof (cases "int (length s) < threshold")
  case True
  with assms(1,2) show ?thesis
    by (simp add: compress_def decompress_def)
next
  case False
  show ?thesis
  proof (cases "gzip rt s")
    case None
    with False assms(1,2) show ?thesis
      by (simp add: compress_def decompress_def)
  next
    case (Some c)
    with assms(3) have "gunzip rt c = Some s" by simp
    with False Some assms(1,2) show ?thesis
      by (simp add: compress_def decompress_def Let_def)
  qed
qed

theorem compress_decompress_roundtrip_witness:
  "JSON_stringify demo_runtime (JSString (replicate 20 CHR ''a'')) = Some (replicate 20 CHR ''a'')
   \<and> JSON_parse demo_runtime (replicate 20 CHR ''a'') = Some (JSString (replicate 20 CHR ''a''))
   \<and> gzip demo_runtime (replicate 20 CHR ''a'') = Some [CHR 0x01, CHR ''a'', CHR 0x14]
   \<and> gunzip demo_runtime [CHR 0x01, CHR ''a'', CHR 0x14] = Some (replicate 20 CHR ''a'')
   \<and> compress demo_runtime 10 (JSString (replicate 20 CHR ''a''))
       = Inr \<lparr> cr_data = [CHR 0x01, CHR ''a'', CHR 0x14], cr_compressed = True \<rparr>
   \<and> decompress demo_runtime [CHR 0x01, CHR ''a'', CHR 0x14] True
       = Inr (JSString (replicate 20 CHR ''a''))
   \<and> compress demo_runtime 1024 (JSString (replicate 20 CHR ''a''))
       = Inr \<lparr> cr_data = replicate 20 CHR ''a'', cr_compressed = False \<rparr>"
proof -
  let ?s = "replicate 20 CHR ''a''"
  have a: "JSON_stringify demo_runtime (JSString ?s) = Some ?s"
    by (simp add: demo_runtime_def)
  have b: "JSON_parse demo_runtime ?s = Some (JSString ?s)"
    by (simp add: demo_runtime_def)
  have z: "gzip demo_runtime ?s = Some [CHR 0x01, CHR ''a'', CHR 0x14]"
    by code_simp
  have u: "gunzip demo_runtime [CHR 0x01, CHR ''a'', CHR 0x14] = Some ?s"
    by code_simp
  have c: "\<And>c. gzip demo_runtime ?s = Some c \<Longrightarrow> gunzip demo_runtime c = Some ?s"
    using z u by simp
  have k: "compress demo_runtime 10 (JSString ?s)
       = Inr \<lparr> cr_data = [CHR 0x01, CHR ''a'', CHR 0x14], cr_compressed = True \<rparr>"
    by code_simp
  from compress_decompress_roundtrip [OF a b c, of 10] k
  have d: "decompress demo_runtime [CHR 0x01, CHR ''a'', CHR 0x14] True = Inr (JSString ?s)"
    by simp
  from compress_decompress_roundtrip [OF a b c, of 1024]
  have e: "compress demo_runtime 1024 (JSString ?s)
       = Inr \<lparr> cr_data = ?s, cr_compressed = False \<rparr>"
    by auto
  from a b z u k d e show ?thesis by blast
qed

section \<open>Cache tiers (\<^verbatim>\<open>cache/l1_cache.ts\<close>, \<^verbatim>\<open>database/sqlite_client.ts\<close>, \<^verbatim>\<open>cache/l2_cache.ts\<close>)\<close>

text \<open>
  The volatile tier wraps the \<^verbatim>\<open>node-cache\<close> package, which is not part of the repository.
  Its store is a map from keys to the value and the time to live (in seconds) it was set
  with, holding the entries the package has not expired; what its \<^verbatim>\<open>set\<close> does with a
  write (stores it, returns false, or throws, as it does when \<^verbatim>\<open>maxKeys\<close> is reached) is
  an input of each call.
\<close>

datatype store_result = Stored | NotStored | Threw

record l1_cache =
  l1_store :: "string \<rightharpoonup> js_value \<times> rat"
  l1_hits :: nat
  l1_misses :: nat
  l1_sets :: nat

definition l1_get :: "l1_cache \<Rightarrow> string \<Rightarrow> js_value \<times> l1_cache" where
  "l1_get c key =
     (let v = (case l1_store c key of Some (x, ttl) \<Rightarrow> x | None \<Rightarrow> JSUndefined) in
      if v \<noteq> JSUndefined
      then (v, c\<lparr> l1_hits := l1_hits c + 1 \<rparr>)
      else (JSUndefined, c\<lparr> l1_misses := l1_misses c + 1 \<rparr>))"

definition l1_set :: "l1_cache \<Rightarrow> store_result \<Rightarrow> string \<Rightarrow> js_value \<Rightarrow> rat \<Rightarrow> bool \<times> l1_cache" where
  "l1_set c outcome key v ttl =
     (case outcome of
        Stored \<Rightarrow> (True, c\<lparr> l1_store := (l1_store c)(key \<mapsto> (v, ttl)), l1_sets := l1_sets c + 1 \<rparr>)
      | NotStored \<Rightarrow> (False, c)
      | Threw \<Rightarrow> (False, c))"

text \<open>
  The durable tier keeps rows in an SQLite table through \<^verbatim>\<open>better-sqlite3\<close>. The table is a
  map from keys to rows; whether the database executes a statement or throws is an input
  of each call (\<open>db_ok\<close>).
\<close>

record cache_row =
  row_value :: string
  row_data_type :: string
  row_ttl :: int
  row_created_at :: int
  row_last_accessed :: int
  row_compressed :: bool
  row_access_count :: int

definition sqlite_get ::
  "(string \<rightharpoonup> cache_row) \<Rightarrow> bool \<Rightarrow> int \<Rightarrow> string \<Rightarrow> cache_row option \<times> (string \<rightharpoonup> cache_row)" where
  "sqlite_get db db_ok now key =
     (if \<not> db_ok then (None, db)
      else (case db key of
              None \<Rightarrow> (None, db)
            | Some r \<Rightarrow>
                if row_ttl r > now
                then (let r' = r\<lparr> row_last_accessed := now, row_access_count := row_access_count r + 1 \<rparr>
                      in (Some r', db(key \<mapsto> r')))
                else (None, db)))"

definition sqlite_set ::
  "(string \<rightharpoonup> cache_row) \<Rightarrow> bool \<Rightarrow> string \<Rightarrow> cache_row \<Rightarrow> bool \<times> (string \<rightharpoonup> cache_row)" where
  "sqlite_set db db_ok key entry =
     (if \<not> db_ok then (False, db)
      else (True, db(key \<mapsto> entry\<lparr> row_access_count :=
                (case db key of Some r \<Rightarrow> row_access_count r | None \<Rightarrow> 1) \<rparr>)))"

record l2_cache =
  l2_sqlite :: "string \<rightharpoonup> cache_row"
  l2_compressionThreshold :: int
  l2_hits :: nat
  l2_misses :: nat
  l2_sets :: nat
  l2_compressionSaved :: int

definition l2_get :: "js_runtime \<Rightarrow> l2_cache \<Rightarrow> bool \<Rightarrow> int \<Rightarrow> string \<Rightarrow> js_value \<times> l2_cache" where
  "l2_get rt c db_ok now key =
     (case sqlite_get (l2_sqlite c) db_ok now key of
        (None, db) \<Rightarrow> (JSUndefined, c\<lparr> l2_sqlite := db, l2_misses := l2_misses c + 1 \<rparr>)
      | (Some row, db) \<Rightarrow>
          (case decompress rt (row_value row) (row_compressed row) of
             Inr v \<Rightarrow> (v, c\<lparr> l2_sqlite := db, l2_hits := l2_hits c + 1 \<rparr>)
           | Inl e \<Rightarrow> (JSUndefined, c\<lparr> l2_sqlite := db, l2_misses := l2_misses c + 1 \<rparr>)))"

definition l2_set ::
  "js_runtime \<Rightarrow> l2_cache \<Rightarrow> bool \<Rightarrow> int \<Rightarrow> string \<Rightarrow> js_value \<Rightarrow> string \<Rightarrow> int \<Rightarrow> bool \<times> l2_cache" where
  "l2_set rt c db_ok now key v dataType ttl =
     (case compress rt (l2_compressionThreshold c) v of
        Inl e \<Rightarrow> (False, c)
      | Inr r \<Rightarrow>
          let saved = (if cr_compressed r
                       then (case JSON_stringify rt v of Some s \<Rightarrow> int (length s) | None \<Rightarrow> 0)
                              - int (length (cr_data r))
                       else 0);
              entry = \<lparr> row_value = cr_data r, row_data_type = dataType, row_ttl = now + ttl,
                        row_created_at = now, row_last_accessed = now,
                        row_compressed = cr_compressed r, row_access_count = 0 \<rparr>
          in (case sqlite_set (l2_sqlite c) db_ok key entry of
                (success, db) \<Rightarrow>
                  (success, c\<lparr> l2_sqlite := db,
                               l2_sets := (if success then l2_sets c + 1 else l2_sets c),
                               l2_compressionSaved := l2_compressionSaved c + saved \<rparr>)))"

section \<open>Cache manager (\<^verbatim>\<open>cache/invalidation.ts\<close>, \<^verbatim>\<open>cache/cache_manager.ts\<close>)\<close>

record cache_policy =
  l1TTL :: int
  l2TTL :: int

record cache_manager =
  l1Cache :: "l1_cache option"
  l2Cache :: "l2_cache option"
  policies :: "string \<rightharpoonup> cache_policy"
  defaultTTL :: int
  requestCount :: nat
  errorRate :: rat

definition getTTL :: "cache_manager \<Rightarrow> string \<Rightarrow> int" where
  \<comment> \<open>\<^verbatim>\<open>policy?.l1TTL || defaultTTL\<close>: a missing policy or a zero TTL gives the default.\<close>
  "getTTL cm dataType =
     (case policies cm dataType of
        None \<Rightarrow> defaultTTL cm
      | Some policy \<Rightarrow> if l1TTL policy \<noteq> 0 then l1TTL policy else defaultTTL cm)"

definition getL2TTL :: "cache_manager \<Rightarrow> string \<Rightarrow> int" where
  "getL2TTL cm dataType =
     (case policies cm dataType of
        None \<Rightarrow> getTTL cm dataType * 5
      | Some policy \<Rightarrow> if l2TTL policy \<noteq> 0 then l2TTL policy else getTTL cm dataType * 5)"

datatype cache_source = SourceL1 | SourceL2 | SourceApi

record cache_result =
  res_value :: js_value
  res_source :: cache_source
  res_cached :: bool
  res_timestamp :: int

text \<open>What the surroundings do during one call: the clock, and the two stores' answers.\<close>

record call_env =
  env_now :: int
  env_db_ok :: bool
  env_l1_store :: store_result

definition CACHE_MISS :: js_error where
  "CACHE_MISS = Error ''Cache miss - data needs to be fetched from source''"

definition cm_get ::
  "js_runtime \<Rightarrow> cache_manager \<Rightarrow> call_env \<Rightarrow> string \<Rightarrow> (string \<times> js_value) list
     \<Rightarrow> (js_error + cache_result) \<times> cache_manager" where
  "cm_get rt cm0 env dataType params =
     (let key = generateKey rt dataType params;
          cm = cm0\<lparr> requestCount := requestCount cm0 + 1 \<rparr>;
          (l1Value, l1') = (case l1Cache cm of
                              None \<Rightarrow> (JSUndefined, None)
                            | Some c \<Rightarrow> (case l1_get c key of (v, c') \<Rightarrow> (v, Some c')))
      in if l1Value \<noteq> JSUndefined
         then (Inr \<lparr> res_value = l1Value, res_source = SourceL1, res_cached = True,
                     res_timestamp = env_now env \<rparr>,
               cm\<lparr> l1Cache := l1' \<rparr>)
         else
           (let (l2Value, l2') = (case l2Cache cm of
                                    None \<Rightarrow> (JSUndefined, None)
                                  | Some c \<Rightarrow> (case l2_get rt c (env_db_ok env) (env_now env) key of
                                                (v, c') \<Rightarrow> (v, Some c')))
            in if l2Value \<noteq> JSUndefined
               then (Inr \<lparr> res_value = l2Value, res_source = SourceL2, res_cached = True,
                           res_timestamp = env_now env \<rparr>,
                     cm\<lparr> l1Cache := (case l1' of
                                        None \<Rightarrow> None
                                      | Some c \<Rightarrow> Some (snd (l1_set c (env_l1_store env) key l2Value
                                                     (of_int (getTTL cm dataType) / 1000)))),
                         l2Cache := l2' \<rparr>)
               else (Inl CACHE_MISS,
                     cm\<lparr> l1Cache := l1', l2Cache := l2', errorRate := errorRate cm + 1 \<rparr>)))"

definition cm_set ::
  "js_runtime \<Rightarrow> cache_manager \<Rightarrow> call_env \<Rightarrow> string \<Rightarrow> (string \<times> js_value) list \<Rightarrow> js_value
     \<Rightarrow> bool \<times> cache_manager" where
  "cm_set rt cm env dataType params v =
     (let key = generateKey rt dataType params;
          (l1Success, l1') = (case l1Cache cm of
                                None \<Rightarrow> (True, None)
                              | Some c \<Rightarrow> (case l1_set c (env_l1_store env) key v
                                                  (of_int (getTTL cm dataType) / 1000) of
                                           (ok, c') \<Rightarrow> (ok, Some c')));
          (l2Success, l2') = (case l2Cache cm of
                                None \<Rightarrow> (True, None)
                              | Some c \<Rightarrow> (case l2_set rt c (env_db_ok env) (env_now env) key v dataType
                                                  (getL2TTL cm dataType) of
                                           (ok, c') \<Rightarrow> (ok, Some c')))
      in (l1Success \<and> l2Success, cm\<lparr> l1Cache := l1', l2Cache := l2' \<rparr>))"

definition l1_lookup :: "cache_manager \<Rightarrow> string \<Rightarrow> js_value" where
  \<comment> \<open>What the volatile tier answers for a key; \<^verbatim>\<open>undefined\<close> when the tier is disabled.\<close>
  "l1_lookup cm key = (case l1Cache cm of None \<Rightarrow> JSUndefined | Some c \<Rightarrow> fst (l1_get c key))"

definition l2_lookup :: "js_runtime \<Rightarrow> cache_manager \<Rightarrow> call_env \<Rightarrow> string \<Rightarrow> js_value" where
  \<comment> \<open>What the durable tier answers for a key; \<^verbatim>\<open>undefined\<close> when the tier is disabled.\<close>
  "l2_lookup rt cm env key =
     (case l2Cache cm of
        None \<Rightarrow> JSUndefined
      | Some c \<Rightarrow> fst (l2_get rt c (env_db_ok env) (env_now env) key))"

definition demo_row :: cache_row where
  "demo_row =
     \<lparr> row_value = ''Standard'', row_data_type = ''leagues'', row_ttl = 1000, row_created_at = 0,
       row_last_accessed = 0, row_compressed = False, row_access_count = 1 \<rparr>"

definition demo_manager :: "(string \<rightharpoonup> cache_row) \<Rightarrow> cache_manager" where
  \<comment> \<open>Both tiers enabled, the volatile one empty, the durable one holding the given rows.\<close>
  "demo_manager rows =
     \<lparr> l1Cache = Some \<lparr> l1_store = Map.empty, l1_hits = 0, l1_misses = 0, l1_sets = 0 \<rparr>,
       l2Cache = Some \<lparr> l2_sqlite = rows, l2_compressionThreshold = 1024, l2_hits = 0,
                        l2_misses = 0, l2_sets = 0, l2_compressionSaved = 0 \<rparr>,
       policies = [''leagues'' \<mapsto> \<lparr> l1TTL = 3600000, l2TTL = 86400000 \<rparr>],
       defaultTTL = 300000,
       requestCount = 0,
       errorRate = 0 \<rparr>"

subsection \<open>Writing through the tiers\<close>

lemma l1_set_success: "fst (l1_set c outcome key v ttl) \<longleftrightarrow> outcome = Stored"
  by (cases outcome) (simp_all add: l1_set_def)

lemma l2_set_success:
  "fst (l2_set rt c db_ok now key v dataType ttl) \<longleftrightarrow> db_ok \<and> JSON_stringify rt v \<noteq> None"
  by (auto simp: l2_set_def sqlite_set_def compress_def Let_def split: option.splits sum.splits if_splits)

lemma getTTL_requestCount [simp]: "getTTL (cm\<lparr> requestCount := n \<rparr>) dataType = getTTL cm dataType"
  by (simp add: getTTL_def split: option.splits)

lemma demo_key: "generateKey demo_runtime ''leagues'' [] = ''v1:leagues:''"
  by code_simp

text \<open>
  C1, as the code has it. \<open>cm_set\<close> answers with the conjunction of the enabled tiers'
  answers: it reports success exactly when every enabled tier's write succeeded, and a
  single failed tier makes it report failure whatever the other tier did.
\<close>

theorem cm_set_success_iff_all_tiers:
  "fst (cm_set rt cm env dataType params v) \<longleftrightarrow>
     (\<forall>c. l1Cache cm = Some c \<longrightarrow>
        fst (l1_set c (env_l1_store env) (generateKey rt dataType params) v
               (of_int (getTTL cm dataType) / 1000)))
     \<and> (\<forall>c. l2Cache cm = Some c \<longrightarrow>
        fst (l2_set rt c (env_db_ok env) (env_now env) (generateKey rt dataType params) v dataType
               (getL2TTL cm dataType)))"
  by (cases "l1Cache cm"; cases "l2Cache cm")
     (simp_all add: cm_set_def Let_def split: prod.splits)

theorem cm_set_success_iff_all_tiers_witness:
  "fst (cm_set demo_runtime (demo_manager Map.empty)
          \<lparr> env_now = 5, env_db_ok = True, env_l1_store = Stored \<rparr> ''leagues'' [] (JSString ''Standard''))
   \<and> \<not> fst (cm_set demo_runtime (demo_manager Map.empty)
          \<lparr> env_now = 5, env_db_ok = True, env_l1_store = Threw \<rparr> ''leagues'' [] (JSString ''Standard''))"
  using cm_set_success_iff_all_tiers [of demo_runtime "demo_manager Map.empty"
          "\<lparr> env_now = 5, env_db_ok = True, env_l1_store = Stored \<rparr>" "''leagues''" "[]" "JSString ''Standard''"]
        cm_set_success_iff_all_tiers [of demo_runtime "demo_manager Map.empty"
          "\<lparr> env_now = 5, env_db_ok = True, env_l1_store = Threw \<rparr>" "''leagues''" "[]" "JSString ''Standard''"]
  by (simp add: l1_set_success l2_set_success demo_manager_def demo_runtime_def)

text \<open>
  The claim as the specification words it fails: with both tiers enabled, the volatile
  tier's write succeeds, the database throws, and \<open>cm_set\<close> reports failure.
\<close>

theorem cm_set_one_tier_failed_counterexample:
  "l1Cache (demo_manager Map.empty) \<noteq> None
   \<and> l2Cache (demo_manager Map.empty) \<noteq> None
   \<and> fst (l1_set \<lparr> l1_store = Map.empty, l1_hits = 0, l1_misses = 0, l1_sets = 0 \<rparr> Stored
             (generateKey demo_runtime ''leagues'' []) (JSString ''Standard'') 3600)
   \<and> \<not> fst (cm_set demo_runtime (demo_manager Map.empty)
          \<lparr> env_now = 5, env_db_ok = False, env_l1_store = Stored \<rparr> ''leagues'' [] (JSString ''Standard''))"
  by (simp add: cm_set_def l1_set_def l2_set_success demo_manager_def Let_def case_prod_beta)

subsection \<open>Reading through the tiers\<close>

text \<open>
  C6, as the code has it. \<open>cm_get\<close> asks the volatile tier first and answers from it
  without touching the durable tier; on a miss there it asks the durable tier and, on a
  hit, writes the value to the volatile tier with the category's L1 time to live (in
  seconds), which holds it from then on when the store took the write; when both tiers
  miss it raises the error \<open>CACHE_MISS\<close> and counts it in the error rate. No fetch
  function is among its inputs.
\<close>

theorem cm_get_tier_cascade:
  "(let key = generateKey rt dataType params;
        r = cm_get rt cm env dataType params
    in (l1_lookup cm key \<noteq> JSUndefined \<longrightarrow>
          fst r = Inr \<lparr> res_value = l1_lookup cm key, res_source = SourceL1, res_cached = True,
                        res_timestamp = env_now env \<rparr>
          \<and> l2Cache (snd r) = l2Cache cm)
     \<and> (l1_lookup cm key = JSUndefined \<and> l2_lookup rt cm env key \<noteq> JSUndefined \<longrightarrow>
          fst r = Inr \<lparr> res_value = l2_lookup rt cm env key, res_source = SourceL2,
                        res_cached = True, res_timestamp = env_now env \<rparr>
          \<and> (\<forall>c. l1Cache (snd r) = Some c \<and> env_l1_store env = Stored \<longrightarrow>
                 l1_store c key = Some (l2_lookup rt cm env key, of_int (getTTL cm dataType) / 1000)))
     \<and> (l1_lookup cm key = JSUndefined \<and> l2_lookup rt cm env key = JSUndefined \<longrightarrow>
          fst r = Inl CACHE_MISS \<and> errorRate (snd r) = errorRate cm + 1))"
  by (cases "l1Cache cm"; cases "l2Cache cm")
     (auto simp: cm_get_def l1_lookup_def l2_lookup_def l1_set_def Let_def
           split: prod.splits store_result.splits)

lemma demo_l1_lookup: "l1_lookup (demo_manager rows) key = JSUndefined"
  by (simp add: l1_lookup_def demo_manager_def l1_get_def)

lemma demo_l2_lookup:
  "l2_lookup demo_runtime (demo_manager [''v1:leagues:'' \<mapsto> demo_row])
     \<lparr> env_now = 5, env_db_ok = True, env_l1_store = Stored \<rparr> ''v1:leagues:''
   = JSString ''Standard''"
  by (simp add: l2_lookup_def demo_manager_def l2_get_def sqlite_get_def demo_row_def
        decompress_def demo_runtime_def Let_def)

theorem cm_get_tier_cascade_witness:
  "l1_lookup (demo_manager [''v1:leagues:'' \<mapsto> demo_row]) (generateKey demo_runtime ''leagues'' [])
     = JSUndefined
   \<and> l2_lookup demo_runtime (demo_manager [''v1:leagues:'' \<mapsto> demo_row])
       \<lparr> env_now = 5, env_db_ok = True, env_l1_store = Stored \<rparr>
       (generateKey demo_runtime ''leagues'' []) = JSString ''Standard''
   \<and> fst (cm_get demo_runtime (demo_manager [''v1:leagues:'' \<mapsto> demo_row])
            \<lparr> env_now = 5, env_db_ok = True, env_l1_store = Stored \<rparr> ''leagues'' [])
     = Inr \<lparr> res_value = JSString ''Standard'', res_source = SourceL2, res_cached = True,
             res_timestamp = 5 \<rparr>
   \<and> getTTL (demo_manager [''v1:leagues:'' \<mapsto> demo_row]) ''leagues'' = 3600000"
  using cm_get_tier_cascade [of demo_runtime "''leagues''" "[]"
          "demo_manager [''v1:leagues:'' \<mapsto> demo_row]"
          "\<lparr> env_now = 5, env_db_ok = True, env_l1_store = Stored \<rparr>"]
  by (simp add: demo_key demo_l1_lookup demo_l2_lookup Let_def)
     (simp add: getTTL_def demo_manager_def)

text \<open>
  The claim as the specification words it fails in its last part: the signal of a miss in
  both tiers is an error, raised to the caller and counted in the error rate.
\<close>

theorem cm_get_miss_is_error_counterexample:
  "fst (cm_get demo_runtime (demo_manager Map.empty)
          \<lparr> env_now = 5, env_db_ok = True, env_l1_store = Stored \<rparr> ''leagues'' [])
     = Inl (Error ''Cache miss - data needs to be fetched from source'')
   \<and> errorRate (demo_manager Map.empty) = 0
   \<and> errorRate (snd (cm_get demo_runtime (demo_manager Map.empty)
          \<lparr> env_now = 5, env_db_ok = True, env_l1_store = Stored \<rparr> ''leagues'' [])) = 1"
  by (simp add: cm_get_def demo_key demo_manager_def l1_get_def l2_get_def sqlite_get_def
        CACHE_MISS_def Let_def)

section \<open>Deduplicating priority queue (\<^verbatim>\<open>utils/priority-queue.ts\<close>)\<close>

datatype priority = HIGH | MEDIUM | LOW

fun priority_value :: "priority \<Rightarrow> nat" where
  "priority_value HIGH = 0"
| "priority_value MEDIUM = 1"
| "priority_value LOW = 2"

record queue_item =
  item_ref :: nat  \<comment> \<open>which object this is: items are numbered as they are created\<close>
  item_id :: string
  item_priority :: priority
  item_data :: js_value
  item_hash :: string
  item_timestamp :: int
  item_retryCount :: nat

text \<open>
  The queues, the deduplication map and the callbacks of the timers hold the same item
  objects. The model keeps a copy of the item in each place; \<open>item_ref\<close> tells which object
  a copy stands for, so that \<^verbatim>\<open>===\<close> on items compares it, and an assignment to a field of
  the object is made in the queue and in the map. The id comes from
  \<^verbatim>\<open>crypto.randomBytes(16)\<close>: an input here, as is the clock. A timer that \<open>dequeue\<close> has
  set is the clock's reading from which its callback may run, and the item it holds.
\<close>

record priority_queue =
  queues :: "priority \<Rightarrow> queue_item list"
  deduplicationMap :: "string \<rightharpoonup> queue_item"
  maxSize :: int
  deduplicationWindowMs :: int
  duplicatesPrevented :: nat
  totalProcessed :: nat
  totalWaitTime :: int
  allocated :: nat
  timers :: "(int \<times> queue_item) list"

definition js_sort :: "js_runtime \<Rightarrow> js_value list \<Rightarrow> js_value list" where
  \<comment> \<open>\<^verbatim>\<open>Array.prototype.sort()\<close> with no comparator: by the elements' strings, stable,
      \<^verbatim>\<open>undefined\<close> last.\<close>
  "js_sort rt xs =
     sort_key (String_of rt) (filter (\<lambda>x. x \<noteq> JSUndefined) xs) @ filter (\<lambda>x. x = JSUndefined) xs"

fun normalizeData :: "js_runtime \<Rightarrow> js_value \<Rightarrow> js_value" where
  "normalizeData rt (JSArray xs) = JSArray (js_sort rt (map (normalizeData rt) xs))"
| "normalizeData rt (JSObject kvs) =
     JSObject
       (let normalized = map (\<lambda>(key, v). (key, normalizeData rt v)) kvs in
        foldl (\<lambda>sorted key. obj_set sorted key (obj_get normalized key)) []
          (sort (Object_keys kvs)))"
| "normalizeData rt v = v"

definition generateHash :: "js_runtime \<Rightarrow> js_value \<Rightarrow> js_error + string" where
  \<comment> \<open>\<^verbatim>\<open>update(undefined)\<close> throws: a payload with no JSON text cannot be hashed.\<close>
  "generateHash rt d =
     (case JSON_stringify rt (normalizeData rt d) of
        None \<Rightarrow> Inl (TypeError ''The \"data\" argument must be of type string'')
      | Some s \<Rightarrow> Inr (sha256_hex rt s))"

definition size_pq :: "priority_queue \<Rightarrow> nat" where
  "size_pq pq = length (queues pq HIGH) + length (queues pq MEDIUM) + length (queues pq LOW)"

fun findIndex :: "('a \<Rightarrow> bool) \<Rightarrow> 'a list \<Rightarrow> nat option" where
  "findIndex P [] = None"
| "findIndex P (x # xs) =
     (if P x then Some 0 else (case findIndex P xs of None \<Rightarrow> None | Some i \<Rightarrow> Some (Suc i)))"

definition splice1 :: "nat \<Rightarrow> 'a list \<Rightarrow> 'a list" where
  \<comment> \<open>\<^verbatim>\<open>queue.splice(index, 1)\<close>\<close>
  "splice1 index xs = take index xs @ drop (Suc index) xs"

fun updatePriority_from ::
  "priority list \<Rightarrow> priority_queue \<Rightarrow> string \<Rightarrow> priority \<Rightarrow> bool \<times> priority_queue" where
  "updatePriority_from [] pq ident newPriority = (False, pq)"
| "updatePriority_from (p # ps) pq ident newPriority =
     (case findIndex (\<lambda>item. item_id item = ident) (queues pq p) of
        None \<Rightarrow> updatePriority_from ps pq ident newPriority
      | Some index \<Rightarrow>
          let item = (queues pq p ! index)\<lparr> item_priority := newPriority \<rparr>;
              removed = (queues pq)(p := splice1 index (queues pq p));
              shared = (case deduplicationMap pq (item_hash item) of
                          None \<Rightarrow> deduplicationMap pq
                        | Some held \<Rightarrow>
                            if item_ref held = item_ref item
                            then (deduplicationMap pq)(item_hash item \<mapsto> held\<lparr> item_priority := newPriority \<rparr>)
                            else deduplicationMap pq)
          in (True, pq\<lparr> queues := removed(newPriority := removed newPriority @ [item]),
                        deduplicationMap := shared \<rparr>))"

definition updatePriority :: "priority_queue \<Rightarrow> string \<Rightarrow> priority \<Rightarrow> bool \<times> priority_queue" where
  "updatePriority pq ident newPriority = updatePriority_from [HIGH, MEDIUM, LOW] pq ident newPriority"

definition enqueue ::
  "js_runtime \<Rightarrow> priority_queue \<Rightarrow> js_value \<Rightarrow> priority \<Rightarrow> string \<Rightarrow> int
     \<Rightarrow> (js_error + string option) \<times> priority_queue" where
  "enqueue rt pq d priority fresh_id now =
     (case generateHash rt d of
        Inl e \<Rightarrow> (Inl e, pq)
      | Inr hash \<Rightarrow>
          (case deduplicationMap pq hash of
             Some existing \<Rightarrow>
               let counted = pq\<lparr> duplicatesPrevented := duplicatesPrevented pq + 1 \<rparr> in
               (Inr (Some (item_id existing)),
                if priority_value priority < priority_value (item_priority existing)
                then snd (updatePriority counted (item_id existing) priority)
                else counted)
           | None \<Rightarrow>
               if int (size_pq pq) \<ge> maxSize pq then (Inr None, pq)
               else
                 let item = \<lparr> item_ref = allocated pq, item_id = fresh_id, item_priority = priority,
                              item_data = d, item_hash = hash, item_timestamp = now,
                              item_retryCount = 0 \<rparr>
                 in (Inr (Some (item_id item)),
                     pq\<lparr> queues := (queues pq)(priority := queues pq priority @ [item]),
                         deduplicationMap := (deduplicationMap pq)(hash \<mapsto> item),
                         allocated := allocated pq + 1 \<rparr>)))"











definition empty_queue :: "int \<Rightarrow> int \<Rightarrow> priority_queue" where
  \<comment> \<open>The queue the constructor builds.\<close>
  "empty_queue size_limit window =
     \<lparr> queues = (\<lambda>p. []), deduplicationMap = Map.empty, maxSize = size_limit,
       deduplicationWindowMs = window, duplicatesPrevented = 0, totalProcessed = 0,
       totalWaitTime = 0, allocated = 0, timers = [] \<rparr>"







subsection \<open>The entries of the queue\<close>
















subsection \<open>What each operation changes\<close>









lemma enqueue_refused:
  assumes "generateHash rt d = Inl e \<or>
           (generateHash rt d = Inr h \<and> deduplicationMap pq h = None \<and> maxSize pq \<le> int (size_pq pq))"
  shows "snd (enqueue rt pq d p fresh now) = pq"
  using assms by (auto simp: enqueue_def)



subsection \<open>Queues that can arise\<close>

















subsection \<open>An item inside its deduplication window\<close>















subsection \<open>The same payload twice\<close>



definition full_queue :: priority_queue where
  \<comment> \<open>A queue of capacity one, holding the payload \<open>JSString ''search-A''\<close>.\<close>
  "full_queue = snd (enqueue demo_runtime (empty_queue 1 60000) (JSString ''search-A'') LOW ''id-1'' 10)"










text \<open>
  C10. The duplicate check comes before the capacity check. A payload whose hash the
  deduplication map holds gets the held item's id, whatever the size of the queue;
  \<open>enqueue\<close> returns null exactly for a payload whose hash the map lacks when the
  queue has reached \<open>maxSize\<close>, and then the queue is as it was.
\<close>

theorem enqueue_duplicate_before_capacity:
  assumes "generateHash rt d = Inr h"
  shows "(\<forall>existing. deduplicationMap pq h = Some existing \<longrightarrow>
            fst (enqueue rt pq d p fresh now) = Inr (Some (item_id existing)))
       \<and> (fst (enqueue rt pq d p fresh now) = Inr None
            \<longleftrightarrow> deduplicationMap pq h = None \<and> maxSize pq \<le> int (size_pq pq))
       \<and> (fst (enqueue rt pq d p fresh now) = Inr None \<longrightarrow> snd (enqueue rt pq d p fresh now) = pq)"
proof (cases "deduplicationMap pq h")
  case None
  with assms show ?thesis
    by (simp add: enqueue_def Let_def)
next
  case (Some existing)
  with assms show ?thesis
    by (simp add: enqueue_def Let_def)
qed

lemma full_queue_eq:
  "full_queue =
     \<lparr> queues = (\<lambda>p. [])(LOW := [\<lparr> item_ref = 0, item_id = ''id-1'', item_priority = LOW,
                    item_data = JSString ''search-A'', item_hash = ''#search-A'',
                    item_timestamp = 10, item_retryCount = 0 \<rparr>]),
       deduplicationMap = [''#search-A'' \<mapsto> \<lparr> item_ref = 0, item_id = ''id-1'',
                    item_priority = LOW, item_data = JSString ''search-A'',
                    item_hash = ''#search-A'', item_timestamp = 10, item_retryCount = 0 \<rparr>],
       maxSize = 1, deduplicationWindowMs = 60000, duplicatesPrevented = 0, totalProcessed = 0,
       totalWaitTime = 0, allocated = 1, timers = [] \<rparr>"
  by (simp add: full_queue_def enqueue_def generateHash_def demo_runtime_def empty_queue_def
        size_pq_def Let_def)

theorem enqueue_duplicate_before_capacity_witness:
  "generateHash demo_runtime (JSString ''search-A'') = Inr ''#search-A''
   \<and> generateHash demo_runtime (JSString ''search-B'') = Inr ''#search-B''
   \<and> int (size_pq full_queue) = maxSize full_queue
   \<and> fst (enqueue demo_runtime full_queue (JSString ''search-A'') HIGH ''id-2'' 20) = Inr (Some ''id-1'')
   \<and> fst (enqueue demo_runtime full_queue (JSString ''search-B'') HIGH ''id-3'' 30) = Inr None
   \<and> snd (enqueue demo_runtime full_queue (JSString ''search-B'') HIGH ''id-3'' 30) = full_queue"
proof -
  have a: "generateHash demo_runtime (JSString ''search-A'') = Inr ''#search-A''"
    by (simp add: generateHash_def demo_runtime_def)
  have b: "generateHash demo_runtime (JSString ''search-B'') = Inr ''#search-B''"
    by (simp add: generateHash_def demo_runtime_def)
  have z: "int (size_pq full_queue) = maxSize full_queue"
    by (simp add: full_queue_eq size_pq_def)
  have held: "deduplicationMap full_queue ''#search-A'' =
      Some \<lparr> item_ref = 0, item_id = ''id-1'', item_priority = LOW,
             item_data = JSString ''search-A'', item_hash = ''#search-A'', item_timestamp = 10,
             item_retryCount = 0 \<rparr>"
    by (simp add: full_queue_eq)
  have lacks: "deduplicationMap full_queue ''#search-B'' = None"
    by (simp add: full_queue_eq)
  from enqueue_duplicate_before_capacity [OF a, of full_queue HIGH "''id-2''" 20] held
  have c: "fst (enqueue demo_runtime full_queue (JSString ''search-A'') HIGH ''id-2'' 20)
           = Inr (Some ''id-1'')"
    by simp
  from enqueue_duplicate_before_capacity [OF b, of full_queue HIGH "''id-3''" 30] lacks z
  have d: "fst (enqueue demo_runtime full_queue (JSString ''search-B'') HIGH ''id-3'' 30) = Inr None
           \<and> snd (enqueue demo_runtime full_queue (JSString ''search-B'') HIGH ''id-3'' 30) = full_queue"
    by simp
  from a b z c d show ?thesis
    by blast
qed

section \<open>Retry handler (\<^verbatim>\<open>utils/retryHandler.ts\<close>)\<close>



















subsection \<open>Attempts, propagation and exhaustion\<close>
















section \<open>Circuit breaker (\<^verbatim>\<open>utils/circuitBreaker.ts\<close>)\<close>

datatype circuit_state = Closed | Open | HalfOpen

record circuit_breaker_config =
  failureThreshold :: int
  timeout :: int
  resetTimeout :: int
  monitoringPeriod :: "int option"

record circuit_breaker =
  state :: circuit_state
  failureCount :: int
  successCount :: int
  totalRequests :: int
  lastFailureTime :: "int option"
  lastSuccessTime :: "int option"
  nextAttemptTime :: "int option"
  config :: circuit_breaker_config


definition truthy :: "int option \<Rightarrow> bool" where
  \<comment> \<open>A number or \<^verbatim>\<open>null\<close> used as a condition: \<^verbatim>\<open>null\<close>, \<^verbatim>\<open>undefined\<close> and 0 are false.\<close>
  "truthy x = (case x of None \<Rightarrow> False | Some n \<Rightarrow> n \<noteq> 0)"

definition reset :: "circuit_breaker \<Rightarrow> circuit_breaker" where
  "reset cb = cb\<lparr> state := Closed, failureCount := 0, nextAttemptTime := None \<rparr>"

definition openCircuit :: "circuit_breaker \<Rightarrow> int \<Rightarrow> circuit_breaker" where
  "openCircuit cb now = cb\<lparr> state := Open, nextAttemptTime := Some (now + resetTimeout (config cb)) \<rparr>"

definition onSuccess :: "circuit_breaker \<Rightarrow> int \<Rightarrow> circuit_breaker" where
  "onSuccess cb now =
     (let counted = cb\<lparr> successCount := successCount cb + 1, lastSuccessTime := Some now \<rparr> in
      if state counted = HalfOpen then reset counted else counted)"

definition onFailure :: "circuit_breaker \<Rightarrow> int \<Rightarrow> circuit_breaker" where
  "onFailure cb now =
     (let counted = cb\<lparr> failureCount := failureCount cb + 1, lastFailureTime := Some now \<rparr> in
      if failureCount counted \<ge> failureThreshold (config counted)
      then openCircuit counted now
      else counted)"

definition checkStateTransition :: "circuit_breaker \<Rightarrow> int \<Rightarrow> circuit_breaker" where
  "checkStateTransition cb now =
     (let probed =
            (if state cb = Open \<and> truthy (nextAttemptTime cb)
                \<and> (case nextAttemptTime cb of Some next \<Rightarrow> now \<ge> next | None \<Rightarrow> False)
             then cb\<lparr> state := HalfOpen, nextAttemptTime := None \<rparr>
             else cb)
      in if truthy (monitoringPeriod (config probed)) \<and> truthy (lastFailureTime probed)
         then (case (monitoringPeriod (config probed), lastFailureTime probed) of
                 (Some period, Some failed) \<Rightarrow>
                   if failed < now - period
                   then probed\<lparr> failureCount := max 0 (failureCount probed - 1) \<rparr>
                   else probed
               | _ \<Rightarrow> probed)
         else probed)"

text \<open>
  The wrapped operation acts on the world outside the breaker. \<open>executeWithTimeout\<close>
  races it against a timer: what settles the race is the operation's result, its error, or
  the timer. A call of \<open>execute\<close> has two steps with an \<^verbatim>\<open>await\<close> between them, during
  which other calls may start and settle: its start (\<open>execute_start\<close>: the count of requests,
  \<open>checkStateTransition\<close>, the refusal when the breaker is open), and, for a call that was
  not refused, the settlement of the race (\<open>execute_settle\<close>: \<open>onSuccess\<close> or \<open>onFailure\<close>).
\<close>

datatype 'r settlement = Resolves 'r | Rejects js_error | TimesOut

datatype cb_error =
    CircuitBreakerError int  \<comment> \<open>the time that the message gives as the next attempt's\<close>
  | InvalidTimeValue  \<comment> \<open>the \<^verbatim>\<open>RangeError\<close> of \<^verbatim>\<open>toISOString\<close>\<close>
  | OperationError js_error
  | OperationTimeout int

definition open_error :: "int option \<Rightarrow> cb_error" where
  \<comment> \<open>What a refused call throws. \<^verbatim>\<open>new Date(null)\<close> is the time 0, and \<^verbatim>\<open>toISOString\<close>
      throws for a time more than \<open>8.64e15\<close> ms from it.\<close>
  "open_error next =
     (let t = (case next of None \<Rightarrow> 0 | Some n \<Rightarrow> n)
      in if - 8640000000000000 \<le> t \<and> t \<le> 8640000000000000 then CircuitBreakerError t
         else InvalidTimeValue)"

definition execute_start :: "circuit_breaker \<Rightarrow> int \<Rightarrow> cb_error option \<times> circuit_breaker" where
  \<comment> \<open>\<open>Some\<close>: the call is refused with this error; \<open>None\<close>: the operation is called.\<close>
  "execute_start cb0 now =
     (let cb = checkStateTransition (cb0\<lparr> totalRequests := totalRequests cb0 + 1 \<rparr>) now in
      if state cb = Open then (Some (open_error (nextAttemptTime cb)), cb) else (None, cb))"

definition execute_settle ::
  "circuit_breaker \<Rightarrow> 'r settlement \<Rightarrow> int \<Rightarrow> (cb_error + 'r) \<times> circuit_breaker" where
  "execute_settle cb outcome settled =
     (case outcome of
        Resolves r \<Rightarrow> (Inr r, onSuccess cb settled)
      | Rejects e \<Rightarrow> (Inl (OperationError e), onFailure cb settled)
      | TimesOut \<Rightarrow> (Inl (OperationTimeout (timeout (config cb))), onFailure cb settled))"

text \<open>
  Calls that overlap: a call starts at a reading of the clock, and the race of one of the
  calls in flight settles at a reading of the clock. What is kept besides the breaker is
  the number of calls in flight and the number of times the operation was called.
\<close>

datatype 'r breaker_event = Starts int | Settles "'r settlement" int

fun breaker_step ::
  "circuit_breaker \<times> nat \<times> nat \<Rightarrow> 'r breaker_event \<Rightarrow> circuit_breaker \<times> nat \<times> nat" where
  "breaker_step (cb, in_flight, called) (Starts now) =
     (case execute_start cb now of
        (Some refusal, cb') \<Rightarrow> (cb', in_flight, called)
      | (None, cb') \<Rightarrow> (cb', in_flight + 1, called + 1))"
| "breaker_step (cb, in_flight, called) (Settles outcome settled) =
     (if in_flight = 0 then (cb, in_flight, called)
      else (snd (execute_settle cb outcome settled), in_flight - 1, called))"

definition breaker_trace ::
  "circuit_breaker \<Rightarrow> nat \<Rightarrow> 'r breaker_event list \<Rightarrow> circuit_breaker \<times> nat \<times> nat" where
  "breaker_trace cb called evs = foldl breaker_step (cb, 0, called) evs"

text \<open>
  A call during which nothing else happens to the breaker: from a world, the operation gives
  what settled the race, the clock's reading when it settled, and the world it leaves.
\<close>

definition cb_execute ::
  "circuit_breaker \<Rightarrow> ('w \<Rightarrow> ('r settlement \<times> int) \<times> 'w) \<Rightarrow> int \<Rightarrow> 'w
     \<Rightarrow> (cb_error + 'r) \<times> circuit_breaker \<times> 'w" where
  "cb_execute cb0 operation now w =
     (case execute_start cb0 now of
        (Some refusal, cb) \<Rightarrow> (Inl refusal, cb, w)
      | (None, cb) \<Rightarrow>
          (case operation w of
             ((outcome, settled), w') \<Rightarrow>
               (case execute_settle cb outcome settled of (res, cb') \<Rightarrow> (res, cb', w'))))"

text \<open>
  A sequence of calls made one after the other, each given by the clock's reading at
  its start, what settles it and the clock's reading then; the world is just the number
  of times the operation ran.
\<close>

fun cb_run :: "circuit_breaker \<Rightarrow> nat \<Rightarrow> (int \<times> 'r settlement \<times> int) list \<Rightarrow> circuit_breaker \<times> nat" where
  "cb_run cb n [] = (cb, n)"
| "cb_run cb n ((start, outcome, settled) # calls) =
     (case cb_execute cb (\<lambda>k. ((outcome, settled), Suc k)) start n of
        (res, cb', n') \<Rightarrow> cb_run cb' n' calls)"

definition sequential :: "(int \<times> 'r settlement \<times> int) list \<Rightarrow> 'r breaker_event list" where
  \<comment> \<open>The same calls as events: each settles before the next starts.\<close>
  "sequential calls = concat (map (\<lambda>(start, outcome, settled). [Starts start, Settles outcome settled]) calls)"







subsection \<open>One call\<close>

lemma cb_execute_eq:
  "cb_execute cb0 operation now w =
     (let cb = checkStateTransition (cb0\<lparr> totalRequests := totalRequests cb0 + 1 \<rparr>) now in
      if state cb = Open
      then (Inl (open_error (nextAttemptTime cb)), cb, w)
      else (case operation w of
              ((Resolves r, settled), w') \<Rightarrow> (Inr r, onSuccess cb settled, w')
            | ((Rejects e, settled), w') \<Rightarrow> (Inl (OperationError e), onFailure cb settled, w')
            | ((TimesOut, settled), w') \<Rightarrow>
                (Inl (OperationTimeout (timeout (config cb))), onFailure cb settled, w')))"
  by (simp add: cb_execute_def execute_start_def execute_settle_def Let_def
        split: prod.splits settlement.splits)


lemma cb_execute_config [simp]: "config (fst (snd (cb_execute cb operation now w))) = config cb"
  by (auto simp: cb_execute_eq checkStateTransition_def onSuccess_def onFailure_def reset_def
        openCircuit_def Let_def split: prod.splits settlement.splits option.splits)








subsection \<open>Failures in a row\<close>


lemma breaker_trace_sequential:
  "breaker_trace cb n (sequential calls) = (fst (cb_run cb n calls), 0, snd (cb_run cb n calls))"
proof (induction calls arbitrary: cb n)
  case Nil
  then show ?case
    by (simp add: breaker_trace_def sequential_def)
next
  case (Cons c calls)
  obtain start outcome settled where c: "c = (start, outcome, settled)"
    by (cases c)
  obtain refusal cb' where s: "execute_start cb start = (refusal, cb')"
    by (cases "execute_start cb start")
  show ?case
  proof (cases refusal)
    case (Some e)
    with s have "breaker_step (breaker_step (cb, 0, n) (Starts start)) (Settles outcome settled)
          = (cb', 0, n)"
      and "cb_execute cb (\<lambda>k. ((outcome, settled), Suc k)) start n = (Inl e, cb', n)"
      by (simp_all add: cb_execute_def)
    with Cons.IH [of cb' n] show ?thesis
      by (simp add: breaker_trace_def sequential_def c)
  next
    case None
    obtain res cb'' where t: "execute_settle cb' outcome settled = (res, cb'')"
      by (cases "execute_settle cb' outcome settled")
    with s None have "breaker_step (breaker_step (cb, 0, n) (Starts start)) (Settles outcome settled)
          = (cb'', 0, Suc n)"
      and "cb_execute cb (\<lambda>k. ((outcome, settled), Suc k)) start n = (res, cb'', Suc n)"
      by (simp_all add: cb_execute_def)
    with Cons.IH [of cb'' "Suc n"] show ?thesis
      by (simp add: breaker_trace_def sequential_def c)
  qed
qed







section \<open>Batch executor (\<^verbatim>\<open>utils/batch-manager.ts\<close>)\<close>

record 't batch_request =
  req_id :: string
  req_data :: 't
  req_priority :: "int option"
  req_timeout :: "int option"

text \<open>
  What an executor's promise is rejected with: an \<^verbatim>\<open>Error\<close> with its message, or a value
  that has no \<^verbatim>\<open>message\<close> string (\<^verbatim>\<open>undefined\<close>, a plain string, ...).
\<close>

datatype thrown = ErrorObject string | OtherValue

record ('t, 'r) batch_result =
  br_id :: string
  br_request :: 't
  br_result :: "'r option"
  br_error :: "thrown option"
  br_duration :: int
  br_timestamp :: int

text \<open>
  The executor acts on the world outside: for a request's data it either settles, with
  a rejection or a value after some milliseconds, or never does.
\<close>

datatype 'r completion = Completes "thrown + 'r" int | Never

record batch_manager =
  maxConcurrent :: int
  defaultTimeout :: int
  retryLimit :: int
  retryDelay :: int
  permits :: int
  peakConcurrency :: int
  responseTimes :: "int list"

definition new_batch_manager :: "int \<Rightarrow> int \<Rightarrow> int \<Rightarrow> int \<Rightarrow> batch_manager" where
  "new_batch_manager concurrent timeout_ms limit delay_ms =
     \<lparr> maxConcurrent = concurrent, defaultTimeout = timeout_ms, retryLimit = limit,
       retryDelay = delay_ms, permits = concurrent, peakConcurrency = 0, responseTimes = [] \<rparr>"

definition executeWithTimeout ::
  "('w \<Rightarrow> 't \<Rightarrow> 'r completion \<times> 'w) \<Rightarrow> 't \<Rightarrow> int \<Rightarrow> 'w \<Rightarrow> ((thrown + 'r) \<times> int) \<times> 'w" where
  \<comment> \<open>The race with the timer, which fires after \<open>timeout\<close> milliseconds (one at least).\<close>
  "executeWithTimeout executor d timeout_ms w =
     (case executor w d of
        (Completes res elapsed, w') \<Rightarrow>
          if elapsed < max timeout_ms 1 then ((res, elapsed), w')
          else ((Inl (ErrorObject ''Request timeout''), max timeout_ms 1), w')
      | (Never, w') \<Rightarrow> ((Inl (ErrorObject ''Request timeout''), max timeout_ms 1), w'))"

definition shouldRetry :: "string \<Rightarrow> bool" where
  \<comment> \<open>On the error's message.\<close>
  "shouldRetry msg =
     (if msg = ''Request timeout'' \<or> msg = ''Request aborted'' then False
      else str_includes msg ''network'' \<or> str_includes msg ''ECONNRESET'')"

definition release :: "batch_manager \<Rightarrow> batch_manager" where
  "release bm = bm\<lparr> permits := permits bm + 1 \<rparr>"

text \<open>
  One request, run on its own: no other task holds a permit, so a semaphore without a free
  permit is never released and \<open>acquire\<close> waits for ever (\<open>None\<close>). A retry gives the
  permit back and asks for one again.
\<close>

partial_function (option) executeRequest ::
  "('w \<Rightarrow> 't \<Rightarrow> 'r completion \<times> 'w) \<Rightarrow> 't batch_request \<Rightarrow> int \<Rightarrow> batch_manager \<Rightarrow> int \<Rightarrow> 'w
     \<Rightarrow> ((js_error + ('t, 'r) batch_result) \<times> batch_manager \<times> int \<times> 'w) option" where
  "executeRequest executor request startTime bm clock w =
     (if permits bm \<le> 0 then None
      else
        let timeout_ms = (case req_timeout request of Some t \<Rightarrow> t | None \<Rightarrow> defaultTimeout bm);
            acquired = bm\<lparr> permits := permits bm - 1 \<rparr>;
            currentUsage = maxConcurrent bm - permits acquired;
            tracked = (if currentUsage > peakConcurrency acquired
                       then acquired\<lparr> peakConcurrency := currentUsage \<rparr> else acquired)
        in (case executeWithTimeout executor (req_data request) timeout_ms w of
              ((res, elapsed), w') \<Rightarrow>
                let now = clock + elapsed;
                    duration = now - startTime;
                    timed = tracked\<lparr> responseTimes := responseTimes tracked @ [duration] \<rparr>
                in (case res of
                      Inr r \<Rightarrow>
                        Some (Inr \<lparr> br_id = req_id request, br_request = req_data request,
                                    br_result = Some r, br_error = None, br_duration = duration,
                                    br_timestamp = now \<rparr>,
                              release timed, now, w')
                    | Inl OtherValue \<Rightarrow>
                        Some (Inl (TypeError ''Cannot read properties of undefined''),
                              release timed, now, w')
                    | Inl (ErrorObject msg) \<Rightarrow>
                        if shouldRetry msg
                        then executeRequest executor request (now + retryDelay bm)
                               (release timed) (now + retryDelay bm) w'
                        else Some (Inr \<lparr> br_id = req_id request, br_request = req_data request,
                                         br_result = None, br_error = Some (ErrorObject msg),
                                         br_duration = duration, br_timestamp = now \<rparr>,
                                   release timed, now, w'))))"

fun executeAll ::
  "('w \<Rightarrow> 't \<Rightarrow> 'r completion \<times> 'w) \<Rightarrow> 't batch_request list \<Rightarrow> int \<Rightarrow> batch_manager \<Rightarrow> int \<Rightarrow> 'w
     \<Rightarrow> ((js_error + ('t, 'r) batch_result list) \<times> batch_manager \<times> int \<times> 'w) option" where
  "executeAll executor [] startTime bm clock w = Some (Inr [], bm, clock, w)"
| "executeAll executor (request # requests) startTime bm clock w =
     (case executeRequest executor request startTime bm clock w of
        None \<Rightarrow> None
      | Some (Inl e, bm', clock', w') \<Rightarrow> Some (Inl e, bm', clock', w')
      | Some (Inr res, bm', clock', w') \<Rightarrow>
          (case executeAll executor requests startTime bm' clock' w' of
             None \<Rightarrow> None
           | Some (Inl e, s) \<Rightarrow> Some (Inl e, s)
           | Some (Inr results, s) \<Rightarrow> Some (Inr (res # results), s)))"

definition executeBatch ::
  "('w \<Rightarrow> 't \<Rightarrow> 'r completion \<times> 'w) \<Rightarrow> 't batch_request list \<Rightarrow> batch_manager \<Rightarrow> int \<Rightarrow> 'w
     \<Rightarrow> ((js_error + ('t, 'r) batch_result list) \<times> batch_manager \<times> int \<times> 'w) option" where
  \<comment> \<open>The requests in the order of their priorities (999 without one), one after the
      other; \<^verbatim>\<open>Promise.all\<close> rejects with the first rejection.\<close>
  "executeBatch executor requests bm clock w =
     executeAll executor
       (sort_key (\<lambda>r. case req_priority r of Some p \<Rightarrow> p | None \<Rightarrow> 999) requests)
       clock bm clock w"

definition gives_up :: "('w \<Rightarrow> 't \<Rightarrow> 'r completion \<times> 'w) \<Rightarrow> bool" where
  \<comment> \<open>Every outcome is a value or an \<^verbatim>\<open>Error\<close> that is not retried.\<close>
  "gives_up executor \<longleftrightarrow>
     (\<forall>w d t. case fst (fst (executeWithTimeout executor d t w)) of
                 Inr r \<Rightarrow> True
               | Inl (ErrorObject msg) \<Rightarrow> \<not> shouldRetry msg
               | Inl OtherValue \<Rightarrow> False)"

subsection \<open>Requests that settle\<close>

lemma executeRequest_settles:
  assumes "gives_up executor" and "0 < permits bm"
  shows "\<exists>res bm' clock' w'.
           executeRequest executor request startTime bm clock w = Some (Inr res, bm', clock', w')
           \<and> br_id res = req_id request \<and> permits bm' = permits bm"
proof -
  obtain r e w' where x: "executeWithTimeout executor (req_data request)
      (case req_timeout request of Some t \<Rightarrow> t | None \<Rightarrow> defaultTimeout bm) w = ((r, e), w')"
    by (metis surj_pair)
  from assms(1) have g: "case fst (fst (executeWithTimeout executor (req_data request)
      (case req_timeout request of Some t \<Rightarrow> t | None \<Rightarrow> defaultTimeout bm) w)) of
                 Inr r \<Rightarrow> True
               | Inl (ErrorObject msg) \<Rightarrow> \<not> shouldRetry msg
               | Inl OtherValue \<Rightarrow> False"
    unfolding gives_up_def by blast
  show ?thesis
  proof (cases r)
    case (Inr v)
    with x assms(2) show ?thesis
      by (subst executeRequest.simps) (simp add: Let_def release_def)
  next
    case (Inl t)
    with g x obtain msg where "t = ErrorObject msg" "\<not> shouldRetry msg"
      by (cases t) auto
    with Inl x assms(2) show ?thesis
      by (subst executeRequest.simps) (simp add: Let_def release_def)
  qed
qed

lemma executeAll_complete:
  assumes "gives_up executor" and "0 < permits bm"
  shows "\<exists>results bm' clock' w'.
           executeAll executor requests startTime bm clock w = Some (Inr results, bm', clock', w')
           \<and> map br_id results = map req_id requests \<and> permits bm' = permits bm"
  using assms(2)
proof (induction requests arbitrary: bm clock w)
  case Nil
  then show ?case by simp
next
  case (Cons request requests)
  from executeRequest_settles [OF assms(1) Cons.prems, of request startTime clock w]
  obtain res bm1 clock1 w1 where
    one: "executeRequest executor request startTime bm clock w = Some (Inr res, bm1, clock1, w1)"
    and rid: "br_id res = req_id request" and p1: "permits bm1 = permits bm"
    by blast
  from Cons.prems p1 have "0 < permits bm1"
    by simp
  from Cons.IH [OF this, of clock1 w1]
  obtain results bm2 clock2 w2 where
    rest: "executeAll executor requests startTime bm1 clock1 w1 = Some (Inr results, bm2, clock2, w2)"
    and ids: "map br_id results = map req_id requests" and p2: "permits bm2 = permits bm1"
    by blast
  from one rest rid ids p1 p2 show ?case
    by simp
qed

subsection \<open>A request that is retried for ever\<close>

lemma executeRequest_never_some:
  fixes executor :: "'w \<Rightarrow> 't \<Rightarrow> 'r completion \<times> 'w"
  assumes "\<And>w. \<exists>msg elapsed w'.
              executeWithTimeout executor (req_data request)
                (case req_timeout request of Some t \<Rightarrow> t | None \<Rightarrow> T) w
                = ((Inl (ErrorObject msg), elapsed), w')
              \<and> shouldRetry msg"
    and "executeRequest ex rq st b ck wd = Some res"
  shows "ex = executor \<longrightarrow> rq = request \<longrightarrow> defaultTimeout b = T \<longrightarrow> False"
proof (rule executeRequest.raw_induct
         [where P = "\<lambda>ex rq st b ck wd res.
                       ex = executor \<longrightarrow> rq = request \<longrightarrow> defaultTimeout b = T \<longrightarrow> False",
          OF _ assms(2)])
  fix rec :: "('w \<Rightarrow> 't \<Rightarrow> 'r completion \<times> 'w) \<Rightarrow> 't batch_request \<Rightarrow> int \<Rightarrow> batch_manager \<Rightarrow> int \<Rightarrow> 'w
     \<Rightarrow> ((js_error + ('t, 'r) batch_result) \<times> batch_manager \<times> int \<times> 'w) option"
    and ex rq st b ck wd res
  assume IH: "\<And>ex rq st b ck wd res. rec ex rq st b ck wd = Some res
            \<Longrightarrow> ex = executor \<longrightarrow> rq = request \<longrightarrow> defaultTimeout b = T \<longrightarrow> False"
    and body: "(if permits b \<le> 0 then None
      else
        let timeout_ms = (case req_timeout rq of Some t \<Rightarrow> t | None \<Rightarrow> defaultTimeout b);
            acquired = b\<lparr> permits := permits b - 1 \<rparr>;
            currentUsage = maxConcurrent b - permits acquired;
            tracked = (if currentUsage > peakConcurrency acquired
                       then acquired\<lparr> peakConcurrency := currentUsage \<rparr> else acquired)
        in (case executeWithTimeout ex (req_data rq) timeout_ms wd of
              ((res, elapsed), w') \<Rightarrow>
                let now = ck + elapsed;
                    duration = now - st;
                    timed = tracked\<lparr> responseTimes := responseTimes tracked @ [duration] \<rparr>
                in (case res of
                      Inr r \<Rightarrow>
                        Some (Inr \<lparr> br_id = req_id rq, br_request = req_data rq,
                                    br_result = Some r, br_error = None, br_duration = duration,
                                    br_timestamp = now \<rparr>,
                              release timed, now, w')
                    | Inl OtherValue \<Rightarrow>
                        Some (Inl (TypeError ''Cannot read properties of undefined''),
                              release timed, now, w')
                    | Inl (ErrorObject msg) \<Rightarrow>
                        if shouldRetry msg
                        then rec ex rq (now + retryDelay b) (release timed) (now + retryDelay b) w'
                        else Some (Inr \<lparr> br_id = req_id rq, br_request = req_data rq,
                                         br_result = None, br_error = Some (ErrorObject msg),
                                         br_duration = duration, br_timestamp = now \<rparr>,
                                   release timed, now, w')))) = Some res"
  show "ex = executor \<longrightarrow> rq = request \<longrightarrow> defaultTimeout b = T \<longrightarrow> False"
  proof (intro impI)
    assume a: "ex = executor" "rq = request" "defaultTimeout b = T"
    from assms(1) [of wd] obtain msg elapsed w' where
      x: "executeWithTimeout executor (req_data request)
            (case req_timeout request of Some t \<Rightarrow> t | None \<Rightarrow> T) wd
          = ((Inl (ErrorObject msg), elapsed), w')"
      and s: "shouldRetry msg"
      by blast
    from a x have x': "executeWithTimeout ex (req_data rq)
            (case req_timeout rq of Some t \<Rightarrow> t | None \<Rightarrow> defaultTimeout b) wd
          = ((Inl (ErrorObject msg), elapsed), w')"
      by (cases "req_timeout rq") simp_all
    from body x' s obtain b' where
      again: "rec ex rq (ck + elapsed + retryDelay b) b' (ck + elapsed + retryDelay b) w' = Some res"
      and same: "defaultTimeout b' = defaultTimeout b"
      by (cases "permits b \<le> 0") (auto simp: Let_def release_def split: if_splits)
    from IH [OF again] a same show False
      by simp
  qed
qed

lemma executeRequest_never_returns:
  assumes "\<And>w. \<exists>msg elapsed w'.
              executeWithTimeout executor (req_data request)
                (case req_timeout request of Some t \<Rightarrow> t | None \<Rightarrow> T) w
                = ((Inl (ErrorObject msg), elapsed), w')
              \<and> shouldRetry msg"
    and "defaultTimeout bm = T"
  shows "executeRequest executor request startTime bm clock w = None"
proof (cases "executeRequest executor request startTime bm clock w")
  case None
  then show ?thesis .
next
  case (Some res)
  from executeRequest_never_some [of executor request T, OF assms(1) Some] assms(2)
  show ?thesis
    by simp
qed

lemma executeBatch_complete:
  assumes "gives_up executor" and "0 < permits bm"
  shows "\<exists>results bm' clock' w'.
           executeBatch executor requests bm clock w = Some (Inr results, bm', clock', w')
           \<and> length results = length requests"
proof -
  let ?sorted = "sort_key (\<lambda>r. case req_priority r of Some p \<Rightarrow> p | None \<Rightarrow> 999) requests"
  from executeAll_complete [OF assms, of ?sorted clock clock w]
  obtain results bm' clock' w' where
    "executeAll executor ?sorted clock bm clock w = Some (Inr results, bm', clock', w')"
    and "map br_id results = map req_id ?sorted"
    by blast
  moreover from this(2) have "length results = length requests"
    by (metis length_map length_sort)
  ultimately show ?thesis
    by (auto simp: executeBatch_def)
qed

text \<open>
  C3 fails on the code. A request whose executor keeps rejecting with a network error is
  retried without end (\<open>retryLimit\<close> is never read), so the batch that holds it never
  returns; and a rejection with a value that is not an \<^verbatim>\<open>Error\<close> makes \<open>shouldRetry\<close>
  throw, which rejects the whole batch. (Where every outcome is a value or an error that
  is not retried, the batch does return one result per request:
  \<open>executeBatch_complete\<close>.)
\<close>

definition unreachable_executor :: "unit \<Rightarrow> js_value \<Rightarrow> js_value completion \<times> unit" where
  \<comment> \<open>Rejects every request with \<^verbatim>\<open>new Error('network unreachable')\<close> after 5 ms.\<close>
  "unreachable_executor w d = (Completes (Inl (ErrorObject ''network unreachable'')) 5, w)"

definition plain_rejecting_executor :: "unit \<Rightarrow> js_value \<Rightarrow> js_value completion \<times> unit" where
  \<comment> \<open>Rejects every request with a value that is not an \<^verbatim>\<open>Error\<close>, after 5 ms.\<close>
  "plain_rejecting_executor w d = (Completes (Inl OtherValue) 5, w)"

definition demo_request :: "js_value batch_request" where
  "demo_request = \<lparr> req_id = ''a'', req_data = JSNull, req_priority = None, req_timeout = None \<rparr>"

theorem executeBatch_does_not_complete:
  "executeBatch unreachable_executor [demo_request] (new_batch_manager 10 30000 3 1000) 0 () = None
   \<and> executeBatch plain_rejecting_executor [demo_request] (new_batch_manager 10 30000 3 1000) 0 ()
     = Some (Inl (TypeError ''Cannot read properties of undefined''),
             (new_batch_manager 10 30000 3 1000)\<lparr> peakConcurrency := 1, responseTimes := [5] \<rparr>,
             5, ())"
proof
  have retry: "shouldRetry ''network unreachable''"
    by (simp add: shouldRetry_def)
  have "\<exists>msg elapsed w'.
          executeWithTimeout unreachable_executor (req_data demo_request)
            (case req_timeout demo_request of Some t \<Rightarrow> t | None \<Rightarrow> 30000) w
          = ((Inl (ErrorObject msg), elapsed), w') \<and> shouldRetry msg" for w
    using retry by (simp add: executeWithTimeout_def unreachable_executor_def demo_request_def)
  then have "executeRequest unreachable_executor demo_request 0
               (new_batch_manager 10 30000 3 1000) 0 () = None"
    by (rule executeRequest_never_returns) (simp add: new_batch_manager_def)
  then show "executeBatch unreachable_executor [demo_request]
               (new_batch_manager 10 30000 3 1000) 0 () = None"
    by (simp add: executeBatch_def)
next
  have "executeRequest plain_rejecting_executor demo_request 0
          (new_batch_manager 10 30000 3 1000) 0 ()
        = Some (Inl (TypeError ''Cannot read properties of undefined''),
             (new_batch_manager 10 30000 3 1000)\<lparr> peakConcurrency := 1, responseTimes := [5] \<rparr>,
             5, ())"
    by (subst executeRequest.simps)
       (simp add: executeWithTimeout_def plain_rejecting_executor_def demo_request_def
          new_batch_manager_def release_def Let_def)
  then show "executeBatch plain_rejecting_executor [demo_request]
               (new_batch_manager 10 30000 3 1000) 0 ()
     = Some (Inl (TypeError ''Cannot read properties of undefined''),
             (new_batch_manager 10 30000 3 1000)\<lparr> peakConcurrency := 1, responseTimes := [5] \<rparr>,
             5, ())"
    by (simp add: executeBatch_def)
qed

section \<open>Token-bucket rate limiter (\<^verbatim>\<open>utils/rateLimiter.ts\<close>)\<close>

subsection \<open>Numbers\<close>

text \<open>
  The limiter computes with JavaScript numbers, IEEE 754 binary64: a finite one is the
  rational number it stands for, and every operation rounds its exact result to the
  nearest one, a tie going to the even significand (53 bits, exponents from \<open>-1022\<close> with
  gradual underflow, \<^verbatim>\<open>Infinity\<close> from \<open>2^1024 - 2^970\<close> on). The two zeros are one value here:
  of the operations used, only a division by zero tells them apart.
\<close>

datatype number = Finite rat | PosInfinity | NegInfinity | NaN

function bit_length :: "int \<Rightarrow> int" where
  "bit_length n = (if n \<le> 0 then 0 else 1 + bit_length (n div 2))"
  by pat_completeness auto
termination
  by (relation "measure nat") auto

function two_to :: "int \<Rightarrow> rat" where
  \<comment> \<open>\<open>2\<close> to a whole power\<close>
  "two_to k = (if k = 0 then 1 else if k > 0 then 2 * two_to (k - 1) else two_to (k + 1) / 2)"
  by pat_completeness auto
termination
  by (relation "measure (\<lambda>k. nat \<bar>k\<bar>)") auto

definition exponent_of :: "rat \<Rightarrow> int" where
  \<comment> \<open>For \<open>x > 0\<close>, the \<open>e\<close> with \<open>2^e \<le> x < 2^(e + 1)\<close>.\<close>
  "exponent_of x =
     (case quotient_of x of
        (p, q) \<Rightarrow> let d = bit_length p - bit_length q in if two_to d \<le> x then d else d - 1)"

definition round_half_even :: "rat \<Rightarrow> int" where
  "round_half_even m =
     (let f = \<lfloor>m\<rfloor>; r = m - of_int f
      in if r < 1 / 2 then f else if r > 1 / 2 then f + 1 else if even f then f else f + 1)"

definition fl_positive :: "rat \<Rightarrow> number" where
  "fl_positive x =
     (let e = max (exponent_of x) (- 1022);
          ulp = two_to (e - 52);
          n = round_half_even (x / ulp)
      in if e > 1023 \<or> (e = 1023 \<and> n \<ge> 9007199254740992) then PosInfinity
         else Finite (of_int n * ulp))"

definition js_negate :: "number \<Rightarrow> number" where
  "js_negate x =
     (case x of
        Finite r \<Rightarrow> Finite (- r)
      | PosInfinity \<Rightarrow> NegInfinity
      | NegInfinity \<Rightarrow> PosInfinity
      | NaN \<Rightarrow> NaN)"

definition fl :: "rat \<Rightarrow> number" where
  \<comment> \<open>The number nearest to an exact result.\<close>
  "fl x = (if x = 0 then Finite 0 else if x > 0 then fl_positive x else js_negate (fl_positive (- x)))"

definition js_times :: "number \<Rightarrow> number \<Rightarrow> number" where
  \<comment> \<open>\<^verbatim>\<open>a * b\<close>\<close>
  "js_times a b =
     (case (a, b) of
        (Finite x, Finite y) \<Rightarrow> fl (x * y)
      | (NaN, _) \<Rightarrow> NaN
      | (_, NaN) \<Rightarrow> NaN
      | (Finite x, PosInfinity) \<Rightarrow> if x = 0 then NaN else if x > 0 then PosInfinity else NegInfinity
      | (Finite x, NegInfinity) \<Rightarrow> if x = 0 then NaN else if x > 0 then NegInfinity else PosInfinity
      | (PosInfinity, Finite y) \<Rightarrow> if y = 0 then NaN else if y > 0 then PosInfinity else NegInfinity
      | (NegInfinity, Finite y) \<Rightarrow> if y = 0 then NaN else if y > 0 then NegInfinity else PosInfinity
      | (PosInfinity, PosInfinity) \<Rightarrow> PosInfinity
      | (NegInfinity, NegInfinity) \<Rightarrow> PosInfinity
      | (PosInfinity, NegInfinity) \<Rightarrow> NegInfinity
      | (NegInfinity, PosInfinity) \<Rightarrow> NegInfinity)"

definition js_plus :: "number \<Rightarrow> number \<Rightarrow> number" where
  \<comment> \<open>\<^verbatim>\<open>a + b\<close> on numbers\<close>
  "js_plus a b =
     (case (a, b) of
        (Finite x, Finite y) \<Rightarrow> fl (x + y)
      | (NaN, _) \<Rightarrow> NaN
      | (_, NaN) \<Rightarrow> NaN
      | (PosInfinity, NegInfinity) \<Rightarrow> NaN
      | (NegInfinity, PosInfinity) \<Rightarrow> NaN
      | (PosInfinity, _) \<Rightarrow> PosInfinity
      | (NegInfinity, _) \<Rightarrow> NegInfinity
      | (Finite x, _) \<Rightarrow> b)"

definition js_divide :: "number \<Rightarrow> number \<Rightarrow> number" where
  \<comment> \<open>\<^verbatim>\<open>a / b\<close>; a division by zero is taken as a division by \<open>+0\<close>.\<close>
  "js_divide a b =
     (case (a, b) of
        (NaN, _) \<Rightarrow> NaN
      | (_, NaN) \<Rightarrow> NaN
      | (Finite x, Finite y) \<Rightarrow>
          if y = 0 then (if x = 0 then NaN else if x > 0 then PosInfinity else NegInfinity)
          else fl (x / y)
      | (Finite x, _) \<Rightarrow> Finite 0
      | (PosInfinity, Finite y) \<Rightarrow> if y \<ge> 0 then PosInfinity else NegInfinity
      | (NegInfinity, Finite y) \<Rightarrow> if y \<ge> 0 then NegInfinity else PosInfinity
      | (_, _) \<Rightarrow> NaN)"

definition Math_floor :: "number \<Rightarrow> number" where
  "Math_floor a = (case a of Finite x \<Rightarrow> Finite (of_int \<lfloor>x\<rfloor>) | _ \<Rightarrow> a)"

definition js_less :: "number \<Rightarrow> number \<Rightarrow> bool" where
  \<comment> \<open>\<^verbatim>\<open>a < b\<close>: false when either is \<^verbatim>\<open>NaN\<close>.\<close>
  "js_less a b =
     (case (a, b) of
        (NaN, _) \<Rightarrow> False
      | (_, NaN) \<Rightarrow> False
      | (Finite x, Finite y) \<Rightarrow> x < y
      | (NegInfinity, NegInfinity) \<Rightarrow> False
      | (NegInfinity, _) \<Rightarrow> True
      | (_, PosInfinity) \<Rightarrow> b \<noteq> a
      | (_, _) \<Rightarrow> False)"

definition Math_min :: "number \<Rightarrow> number \<Rightarrow> number" where
  "Math_min a b = (if a = NaN \<or> b = NaN then NaN else if js_less b a then b else a)"

definition Math_max :: "number \<Rightarrow> number \<Rightarrow> number" where
  "Math_max a b = (if a = NaN \<or> b = NaN then NaN else if js_less a b then b else a)"

subsection \<open>The limiter\<close>

text \<open>
  The clock (\<^verbatim>\<open>Date.now()\<close>) reads whole milliseconds, and the difference of two readings
  is exact. A waiting request is the clock's reading when it was queued.
\<close>

datatype timer = Idle | Scheduled number  \<comment> \<open>the delay given to \<^verbatim>\<open>setTimeout\<close>\<close>

record rate_limiter =
  tokens :: number
  lastRefill :: int
  queue :: "int list"
  requestsPerSecond :: number
  burstSize :: number
  processing :: bool
  pending :: timer

definition new_rate_limiter :: "number \<Rightarrow> number \<Rightarrow> int \<Rightarrow> rate_limiter" where
  "new_rate_limiter rps burst now =
     \<lparr> tokens = burst, lastRefill = now, queue = [], requestsPerSecond = rps, burstSize = burst,
       processing = False, pending = Idle \<rparr>"

definition tokensToAdd :: "rate_limiter \<Rightarrow> int \<Rightarrow> number" where
  "tokensToAdd rl now =
     (let timePassed = js_divide (Finite (of_int (now - lastRefill rl))) (Finite 1000)
      in Math_floor (js_times timePassed (requestsPerSecond rl)))"

definition refillTokens :: "rate_limiter \<Rightarrow> int \<Rightarrow> rate_limiter" where
  "refillTokens rl now =
     (if js_less (Finite 0) (tokensToAdd rl now)
      then rl\<lparr> tokens := Math_min (burstSize rl) (js_plus (tokens rl) (tokensToAdd rl now)),
               lastRefill := now \<rparr>
      else rl)"

fun serve :: "number \<Rightarrow> int list \<Rightarrow> int list \<times> number \<times> int list" where
  \<comment> \<open>The \<^verbatim>\<open>while\<close> loop of \<open>processQueue\<close>: the requests resolved, the tokens and the
      queue left.\<close>
  "serve t [] = ([], t, [])"
| "serve t (request # waiting) =
     (if js_less (Finite 0) t
      then (case serve (js_plus t (Finite (- 1))) waiting of
              (resolved, t', left) \<Rightarrow> (request # resolved, t', left))
      else ([], t, request # waiting))"

definition timer_delay :: "number \<Rightarrow> number" where
  \<comment> \<open>\<^verbatim>\<open>Math.max(0, 1000 / requestsPerSecond)\<close>\<close>
  "timer_delay rps = Math_max (Finite 0) (js_divide (Finite 1000) rps)"

definition processQueue :: "rate_limiter \<Rightarrow> int \<Rightarrow> int list \<times> rate_limiter" where
  "processQueue rl now =
     (if processing rl then ([], rl)
      else
        let refilled = refillTokens (rl\<lparr> processing := True \<rparr>) now in
        (case serve (tokens refilled) (queue refilled) of
           (resolved, t, left) \<Rightarrow>
             (resolved,
              if left \<noteq> []
              then refilled\<lparr> tokens := t, queue := left,
                             pending := Scheduled (timer_delay (requestsPerSecond rl)) \<rparr>
              else refilled\<lparr> tokens := t, queue := left, processing := False \<rparr>)))"

text \<open>
  What happens to a limiter: a call of \<open>acquire\<close>, the timer that \<open>processQueue\<close> set
  running its callback, a call of \<open>getStatus\<close>, a call of \<open>clear\<close>. Each comes with the
  clock's reading; a step gives the requests it resolves.
\<close>

datatype limiter_event = Acquire | TimerFires | GetStatus | Clear

fun limiter_step :: "rate_limiter \<Rightarrow> int \<times> limiter_event \<Rightarrow> int list \<times> rate_limiter" where
  "limiter_step rl (now, Acquire) = processQueue (rl\<lparr> queue := queue rl @ [now] \<rparr>) now"
| "limiter_step rl (now, TimerFires) =
     (case pending rl of
        Idle \<Rightarrow> ([], rl)
      | Scheduled d \<Rightarrow> processQueue (rl\<lparr> pending := Idle, processing := False \<rparr>) now)"
| "limiter_step rl (now, GetStatus) = ([], refillTokens rl now)"
| "limiter_step rl (now, Clear) = ([], rl\<lparr> queue := [] \<rparr>)"

fun grant_times :: "rate_limiter \<Rightarrow> (int \<times> limiter_event) list \<Rightarrow> int list" where
  \<comment> \<open>The clock's reading at every grant, in order.\<close>
  "grant_times rl [] = []"
| "grant_times rl (ev # evs) =
     (case limiter_step rl ev of
        (resolved, rl') \<Rightarrow> map (\<lambda>request. fst ev) resolved @ grant_times rl' evs)"

definition grants_in_window :: "int \<Rightarrow> int \<Rightarrow> int list \<Rightarrow> int" where
  \<comment> \<open>The grants from \<open>s\<close> to \<open>s + W\<close>, both included.\<close>
  "grants_in_window s W granted = int (length (filter (\<lambda>t. s \<le> t \<and> t \<le> s + W) granted))"

definition quota :: "rat \<Rightarrow> rat \<Rightarrow> int \<Rightarrow> rat" where
  \<comment> \<open>\<open>ceil(rate \<times> W) + burst\<close> for a window of \<open>W\<close> milliseconds, computed exactly.\<close>
  "quota rate burst W = of_int \<lceil>rate * (of_int W / 1000)\<rceil> + burst"

subsection \<open>A window with more grants than its quota\<close>

definition five_then_three :: "(int \<times> limiter_event) list" where
  \<comment> \<open>Five calls of \<open>acquire\<close> 180 ms after the limiter was made, three more 360 ms later.\<close>
  "five_then_three =
     [(180, Acquire), (180, Acquire), (180, Acquire), (180, Acquire), (180, Acquire),
      (540, Acquire), (540, Acquire), (540, Acquire)]"

definition rate_5_555 :: rat where
  \<comment> \<open>The number that \<^verbatim>\<open>5.555555555555555\<close> is read as.\<close>
  "rate_5_555 = 3127499741229511 / 562949953421312"

text \<open>
  C4. A limiter made with a sustained rate of \<^verbatim>\<open>5.555555555555555\<close> and a burst size of 5
  grants eight calls in a window of 360 ms, where \<open>ceil(rate \<times> W) + burst\<close> is 7. At 180 ms
  the product \<open>0.18 \<times> rate\<close> is \<^verbatim>\<open>0.9999999999999999\<close>: no token is added and \<open>lastRefill\<close>
  stays; at 540 ms the product \<open>0.54 \<times> rate\<close>, exactly a little less than 3, rounds to
  \<^verbatim>\<open>3.0\<close>, and three tokens are added.
\<close>

theorem token_bucket_exceeds_quota:
  "fl (5555555555555555 / 1000000000000000) = Finite rate_5_555
   \<and> tokensToAdd (new_rate_limiter (Finite rate_5_555) (Finite 5) 0) 180 = Finite 0
   \<and> tokensToAdd (new_rate_limiter (Finite rate_5_555) (Finite 5) 0) 540 = Finite 3
   \<and> rate_5_555 * (540 / 1000) < 3
   \<and> grant_times (new_rate_limiter (Finite rate_5_555) (Finite 5) 0) five_then_three
       = [180, 180, 180, 180, 180, 540, 540, 540]
   \<and> grants_in_window 180 360
        (grant_times (new_rate_limiter (Finite rate_5_555) (Finite 5) 0) five_then_three) = 8
   \<and> quota rate_5_555 5 360 = 7"
  by code_simp

text \<open>
  The limiter at work with two tokens a second and a burst of five: five callers at once are
  granted at once, the sixth waits for the timer, set to 500 ms, and is granted when it runs.
\<close>

lemma token_bucket_sixth_caller_waits:
  "pending (snd (limiter_step
      (snd (limiter_step
        (snd (limiter_step
          (snd (limiter_step
            (snd (limiter_step
              (snd (limiter_step (new_rate_limiter (Finite 2) (Finite 5) 0) (0, Acquire)))
              (0, Acquire)))
            (0, Acquire)))
          (0, Acquire)))
        (0, Acquire)))
      (0, Acquire))) = Scheduled (Finite 500)
   \<and> grant_times (new_rate_limiter (Finite 2) (Finite 5) 0)
       [(0, Acquire), (0, Acquire), (0, Acquire), (0, Acquire), (0, Acquire), (0, Acquire),
        (500, TimerFires)]
       = [0, 0, 0, 0, 0, 500]"
  by code_simp

text \<open>
  A burst size need not be whole either: with a rate of 0.5 and a burst size of 1.5 the loop
  of \<open>processQueue\<close>, which grants while \<open>tokens > 0\<close>, grants twice from a full bucket, and
  three calls go through within one millisecond.
\<close>

lemma token_bucket_fractional_burst:
  "grant_times (new_rate_limiter (Finite (1 / 2)) (Finite (3 / 2)) 0)
       [(1999, Acquire), (1999, Acquire), (2000, Acquire)] = [1999, 1999, 2000]
   \<and> quota (1 / 2) (3 / 2) 1 = 5 / 2"
  by code_simp

end
